theory Spec2Isabelle
  imports Complex_Main "HOL-Library.Multiset"
begin

section \<open>Proof-of-Action Monte Carlo simulation (simulation/monte_carlo.py)\<close>

text \<open>
  The simulation computes with double-precision numbers. In a run they are
  modelled as real numbers, so rounding, overflow and the values inf and nan
  are outside the model of a run. The statistics over the runs are modelled
  twice: in exact arithmetic, and with the rounding of every arithmetic
  result made explicit, since the order of the additions matters there.
  Python integers are \<open>int\<close>, array indices and loop counters that are
  non-negative by construction are \<open>nat\<close>.
\<close>

subsection \<open>Module constants\<close>

text \<open>
  The module fixes its parameters as global constants. They are gathered in a
  record so that a property can be stated for other parameter values as well;
  \<open>module_constants\<close> holds the values written in the file.
\<close>

record config =
  N_SIMULATIONS :: int
  T_STEPS :: int
  K_MAX_USERS :: real
  r_GROWTH_RATE :: real
  t0_INFLECTION :: real
  mu_MINT :: real
  sigma_MINT :: real
  mu_BURN_INITIAL :: real
  sigma_BURN :: real
  S0_INITIAL_SUPPLY :: real
  R0_INITIAL_REWARD :: real
  ALPHA_ADAPTATION :: real

definition module_constants :: config where
  "module_constants =
     \<lparr>N_SIMULATIONS = 100, T_STEPS = 10 * 12,
      K_MAX_USERS = 100000, r_GROWTH_RATE = 5 / 100, t0_INFLECTION = 36,
      mu_MINT = 10, sigma_MINT = 3,
      mu_BURN_INITIAL = 2, sigma_BURN = 1,
      S0_INITIAL_SUPPLY = 0, R0_INITIAL_REWARD = 1,
      ALPHA_ADAPTATION = 1 / 10\<rparr>"

subsection \<open>Exceptions\<close>

text \<open>
  The exception classes that the module's statements and the numpy calls it
  makes can raise. \<open>ConfigurationError\<close> is the error class named by the
  specification; no statement of the module raises it.
\<close>

datatype error = ValueError | IndexError | UnboundLocalError | ConfigurationError

subsection \<open>The global random generator\<close>

text \<open>
  numpy's global generator is a piece of mutable state. Its state is modelled
  by the sequence of standard normal deviates it is going to produce.
  \<open>np.random.seed(s)\<close> puts the generator into a state that only depends on
  \<open>s\<close>; which one is a parameter \<open>gauss\<close> of the model. Seeds outside
  \<open>0 .. 2^32 - 1\<close> are refused with ValueError.
  \<open>np.random.normal(loc, scale, size)\<close> returns \<open>size\<close> values
  \<open>loc + scale * z\<close> for the next deviates \<open>z\<close> and advances the generator;
  it refuses a negative scale and a negative size with ValueError.
\<close>

type_synonym rng = "nat \<Rightarrow> real"

definition random_seed :: "(nat \<Rightarrow> rng) \<Rightarrow> int \<Rightarrow> rng \<Rightarrow> (error + unit) \<times> rng" where
  "random_seed gauss s g =
     (if 0 \<le> s \<and> s < 2 ^ 32 then (Inr (), gauss (nat s)) else (Inl ValueError, g))"

definition random_normal :: "real \<Rightarrow> real \<Rightarrow> int \<Rightarrow> rng \<Rightarrow> (error + real list) \<times> rng" where
  "random_normal loc scale sz g =
     (if scale < 0 \<or> sz < 0 then (Inl ValueError, g)
      else (Inr (map (\<lambda>i. loc + scale * g i) [0..<nat sz]), (\<lambda>i. g (i + nat sz))))"

text \<open>\<open>int(x)\<close> on a float truncates towards zero.\<close>

definition py_int :: "real \<Rightarrow> int" where
  "py_int x = (if 0 \<le> x then \<lfloor>x\<rfloor> else \<lceil>x\<rceil>)"

definition np_maximum :: "real \<Rightarrow> real list \<Rightarrow> real list" where
  "np_maximum c xs = map (\<lambda>x. max c x) xs"

definition np_sum :: "real list \<Rightarrow> real" where
  "np_sum xs = sum_list xs"

subsection \<open>Logistic user growth\<close>

definition logistic_growth :: "real \<Rightarrow> real \<Rightarrow> real \<Rightarrow> real \<Rightarrow> real" where
  "logistic_growth t K r t0 = K / (1 + exp (- r * (t - t0)))"

subsection \<open>One simulation run\<close>

text \<open>
  The six arrays of a run: \<open>time\<close> and \<open>users\<close> are computed before the period
  loop, the other four are filled by it. The run returns them as a tuple.
  The array \<open>supply\<close> of the source is the field \<open>supply_arr\<close>, as
  \<open>supply\<close> is a reserved word here.
\<close>

record trajectory =
  time :: "nat list"
  supply_arr :: "real list"
  users :: "real list"
  mint_total :: "real list"
  burn_total :: "real list"
  rewards :: "real list"

text \<open>The locals of the loop body, in the order the body computes them.\<close>

definition mint_per_user :: "config \<Rightarrow> real \<Rightarrow> rng \<Rightarrow> (error + real list) \<times> rng" where
  "mint_per_user cfg n_t g =
     (case random_normal (mu_MINT cfg) (sigma_MINT cfg) (py_int n_t) g of
        (Inl e, g') \<Rightarrow> (Inl e, g')
      | (Inr zs, g') \<Rightarrow> (Inr (np_maximum 0 zs), g'))"

definition mu_burn_adaptive :: "config \<Rightarrow> real \<Rightarrow> real \<Rightarrow> real" where
  "mu_burn_adaptive cfg S_prev n_t =
     mu_BURN_INITIAL cfg * (1 + ALPHA_ADAPTATION cfg * (S_prev / (n_t + 1)))"

definition burn_per_user :: "config \<Rightarrow> real \<Rightarrow> real \<Rightarrow> rng \<Rightarrow> (error + real list) \<times> rng" where
  "burn_per_user cfg S_prev n_t g =
     (case random_normal (mu_burn_adaptive cfg S_prev n_t) (sigma_BURN cfg) (py_int n_t) g of
        (Inl e, g') \<Rightarrow> (Inl e, g')
      | (Inr zs, g') \<Rightarrow> (Inr (np_maximum 0 zs), g'))"

definition reward_coefficient :: "config \<Rightarrow> real \<Rightarrow> real \<Rightarrow> real" where
  "reward_coefficient cfg M_t B_t =
     (if M_t > 0 then R0_INITIAL_REWARD cfg * (B_t / M_t) else R0_INITIAL_REWARD cfg)"

text \<open>
  The body of \<open>for t in range(1, T_STEPS)\<close>. An exception leaves the loop;
  what it keeps is the state of the global generator.
\<close>

definition period_step ::
  "config \<Rightarrow> nat \<Rightarrow> trajectory \<times> rng \<Rightarrow> (error + trajectory) \<times> rng" where
  "period_step cfg t s =
     (case s of (a, g) \<Rightarrow>
        let n_t = users a ! t in
        (case mint_per_user cfg n_t g of
           (Inl e, g1) \<Rightarrow> (Inl e, g1)
         | (Inr mints, g1) \<Rightarrow>
             let M_t = np_sum mints in
             (case burn_per_user cfg (supply_arr a ! (t - 1)) n_t g1 of
                (Inl e, g2) \<Rightarrow> (Inl e, g2)
              | (Inr burns, g2) \<Rightarrow>
                  let B_t = np_sum burns;
                      s1 = (supply_arr a)[t := supply_arr a ! (t - 1) + M_t - B_t];
                      s2 = s1[t := max 0 (s1 ! t)]
                  in (Inr (a\<lparr>supply_arr := s2,
                             mint_total := (mint_total a)[t := M_t],
                             burn_total := (burn_total a)[t := B_t],
                             rewards := (rewards a)[t := reward_coefficient cfg M_t B_t]\<rparr>),
                      g2))))"

fun period_loop ::
  "config \<Rightarrow> nat list \<Rightarrow> trajectory \<times> rng \<Rightarrow> (error + trajectory) \<times> rng" where
  "period_loop cfg [] s = (Inr (fst s), snd s)"
| "period_loop cfg (t # ts) s =
     (case period_step cfg t s of
        (Inl e, g') \<Rightarrow> (Inl e, g')
      | (Inr a', g') \<Rightarrow> period_loop cfg ts (a', g'))"

text \<open>
  The arrays as they are before the loop, for a positive number \<open>n\<close> of steps.
\<close>

definition initial_arrays :: "config \<Rightarrow> nat \<Rightarrow> trajectory" where
  "initial_arrays cfg n =
     \<lparr>time = [0..<n],
      supply_arr = (replicate n 0)[0 := S0_INITIAL_SUPPLY cfg],
      users = map (\<lambda>t. logistic_growth (real t) (K_MAX_USERS cfg)
                         (r_GROWTH_RATE cfg) (t0_INFLECTION cfg)) [0..<n],
      mint_total = replicate n 0,
      burn_total = replicate n 0,
      rewards = replicate n (1 * R0_INITIAL_REWARD cfg)\<rparr>"

text \<open>
  \<open>simulate_single_run(seed)\<close>. A seed of \<open>None\<close> leaves the generator as it
  is. \<open>np.zeros\<close> refuses a negative length with ValueError, and the
  assignment \<open>supply[0] = S0_INITIAL_SUPPLY\<close> raises IndexError on an array
  of length 0.
\<close>

definition simulate_single_run ::
  "config \<Rightarrow> (nat \<Rightarrow> rng) \<Rightarrow> int option \<Rightarrow> rng \<Rightarrow> (error + trajectory) \<times> rng" where
  "simulate_single_run cfg gauss seed g0 =
     (case (case seed of None \<Rightarrow> (Inr (), g0) | Some s \<Rightarrow> random_seed gauss s g0) of
        (Inl e, g) \<Rightarrow> (Inl e, g)
      | (Inr u, g) \<Rightarrow>
          if T_STEPS cfg < 0 then (Inl ValueError, g)
          else if T_STEPS cfg = 0 then (Inl IndexError, g)
          else period_loop cfg [1..<nat (T_STEPS cfg)]
                 (initial_arrays cfg (nat (T_STEPS cfg)), g))"

subsection \<open>Statistics over the runs, in exact arithmetic\<close>

text \<open>
  \<open>all_supplies\<close> and \<open>all_rewards\<close> are arrays with one row per run and one
  column per period; they are modelled as the list of their rows. The numpy
  reductions with \<open>axis=0\<close> work on each column. Here they are the exact
  functions of the column; the next subsection adds the rounding.
  \<open>np.mean\<close> and \<open>np.std\<close> of an empty column are nan (with a warning, no
  exception), which is the value \<open>None\<close> here. \<open>np.std\<close> is the population
  standard deviation. \<open>np.percentile\<close> is called without a method, so it
  interpolates linearly between the two order statistics next to the position
  \<open>(n - 1) * q / 100\<close> of the sorted column; an empty column has no order
  statistic and the call raises IndexError.
\<close>

definition column :: "real list list \<Rightarrow> nat \<Rightarrow> real list" where
  "column rows t = map (\<lambda>row. row ! t) rows"

definition np_mean :: "real list \<Rightarrow> real option" where
  "np_mean xs = (if xs = [] then None else Some (sum_list xs / real (length xs)))"

definition np_std :: "real list \<Rightarrow> real option" where
  "np_std xs =
     (case np_mean xs of
        None \<Rightarrow> None
      | Some m \<Rightarrow> map_option sqrt (np_mean (map (\<lambda>x. \<bar>x - m\<bar> ^ 2) xs)))"

definition np_percentile :: "real list \<Rightarrow> real \<Rightarrow> error + real" where
  "np_percentile xs q =
     (if xs = [] then Inl IndexError
      else
        let a = sort xs;
            n = length xs;
            h = real (n - 1) * (q / 100);
            lo = nat \<lfloor>h\<rfloor>;
            hi = min (lo + 1) (n - 1);
            gam = h - real lo
        in Inr (a ! lo + gam * (a ! hi - a ! lo)))"

fun collect :: "(error + 'a) list \<Rightarrow> error + 'a list" where
  "collect [] = Inr []"
| "collect (r # rs) =
     (case r of
        Inl e \<Rightarrow> Inl e
      | Inr x \<Rightarrow> (case collect rs of Inl e \<Rightarrow> Inl e | Inr xs \<Rightarrow> Inr (x # xs)))"

definition np_mean_axis0 :: "nat \<Rightarrow> real list list \<Rightarrow> real option list" where
  "np_mean_axis0 n rows = map (\<lambda>t. np_mean (column rows t)) [0..<n]"

definition np_std_axis0 :: "nat \<Rightarrow> real list list \<Rightarrow> real option list" where
  "np_std_axis0 n rows = map (\<lambda>t. np_std (column rows t)) [0..<n]"

definition np_percentile_axis0 :: "nat \<Rightarrow> real list list \<Rightarrow> real \<Rightarrow> error + real list" where
  "np_percentile_axis0 n rows q = collect (map (\<lambda>t. np_percentile (column rows t) q) [0..<n])"

record statistics =
  mean_supply :: "real option list"
  std_supply :: "real option list"
  percentile_5 :: "real list"
  percentile_95 :: "real list"
  mean_reward :: "real option list"

text \<open>The block \<open># Compute statistics\<close> of \<open>run_monte_carlo\<close>.\<close>

definition compute_statistics ::
  "nat \<Rightarrow> real list list \<Rightarrow> real list list \<Rightarrow> error + statistics" where
  "compute_statistics n all_supplies all_rewards =
     (let mean_s = np_mean_axis0 n all_supplies;
          std_s = np_std_axis0 n all_supplies
      in (case np_percentile_axis0 n all_supplies 5 of
            Inl e \<Rightarrow> Inl e
          | Inr p5 \<Rightarrow>
              (case np_percentile_axis0 n all_supplies 95 of
                 Inl e \<Rightarrow> Inl e
               | Inr p95 \<Rightarrow>
                   Inr \<lparr>mean_supply = mean_s,
                        std_supply = std_s,
                        percentile_5 = p5,
                        percentile_95 = p95,
                        mean_reward = np_mean_axis0 n all_rewards\<rparr>)))"

subsection \<open>Statistics in double precision\<close>

text \<open>
  numpy computes in double precision: the result of every arithmetic
  operation is the real result rounded to the nearest double, a tie going to
  the neighbour with an even last bit. \<open>round_double\<close> is this rounding: a
  number in the binade \<open>2^e \<le> |x| < 2^(e+1)\<close> is rounded to a multiple of
  \<open>2^(e-52)\<close>, and below \<open>2^(-1022)\<close> the spacing stays \<open>2^(-1074)\<close>.
  Results beyond the largest double (inf) are outside the model.
\<close>

definition round_half_even :: "real \<Rightarrow> int" where
  "round_half_even x =
     (let f = \<lfloor>x\<rfloor>; d = x - of_int f
      in if d < 1 / 2 then f else if 1 / 2 < d then f + 1 else if even f then f else f + 1)"

definition round_double :: "real \<Rightarrow> real" where
  "round_double x =
     (if x = 0 then 0
      else
        let e = max \<lfloor>log 2 \<bar>x\<bar>\<rfloor> (- 1022) - 52
        in of_int (round_half_even (x / 2 powr of_int e)) * 2 powr of_int e)"

text \<open>
  The statistics once more, with a rounding function \<open>rnd\<close> applied to the
  result of every arithmetic operation, in the order in which numpy performs
  them. With \<open>round_double\<close> for \<open>rnd\<close> this is the double-precision
  computation of the source; with the identity it is the exact computation
  \<open>compute_statistics\<close> above. \<open>np.mean\<close> and \<open>np.std\<close> with \<open>axis=0\<close> add
  the rows one after the other, in row order, and divide by the number of
  rows; \<open>np.std\<close> takes the mean of the squared differences from the mean
  and its square root.
\<close>

definition np_add_reduce :: "(real \<Rightarrow> real) \<Rightarrow> real list \<Rightarrow> real" where
  "np_add_reduce rnd xs = (case xs of [] \<Rightarrow> 0 | x # ys \<Rightarrow> foldl (\<lambda>s y. rnd (s + y)) x ys)"

definition np_mean_rnd :: "(real \<Rightarrow> real) \<Rightarrow> real list \<Rightarrow> real option" where
  "np_mean_rnd rnd xs =
     (if xs = [] then None else Some (rnd (np_add_reduce rnd xs / real (length xs))))"

definition np_std_rnd :: "(real \<Rightarrow> real) \<Rightarrow> real list \<Rightarrow> real option" where
  "np_std_rnd rnd xs =
     (case np_mean_rnd rnd xs of
        None \<Rightarrow> None
      | Some m \<Rightarrow>
          map_option (\<lambda>v. rnd (sqrt v))
            (np_mean_rnd rnd (map (\<lambda>x. rnd (rnd (x - m) * rnd (x - m))) xs)))"

text \<open>
  \<open>np.percentile\<close> sorts the column, takes the position
  \<open>(n - 1) * (q / 100)\<close>, the two entries next to it (the last entry when
  the position is \<open>n - 1\<close> or more, the first when it is negative) and
  interpolates: \<open>a + (b - a) * t\<close>, computed as \<open>b - (b - a) * (1 - t)\<close> when
  \<open>t \<ge> 1/2\<close>. Whatever the rounding, the result is a function of the sorted
  column.
\<close>

definition numpy_lerp :: "(real \<Rightarrow> real) \<Rightarrow> real \<Rightarrow> real \<Rightarrow> real \<Rightarrow> real" where
  "numpy_lerp rnd a b t =
     (let d = rnd (b - a)
      in if 1 / 2 \<le> t then rnd (b - rnd (d * rnd (1 - t))) else rnd (a + rnd (d * t)))"

definition percentile_of_sorted :: "(real \<Rightarrow> real) \<Rightarrow> real list \<Rightarrow> real \<Rightarrow> real" where
  "percentile_of_sorted rnd a q =
     (let n = length a;
          h = rnd (real (n - 1) * rnd (q / 100));
          lo = (if real (n - 1) \<le> h then n - 1 else if h < 0 then 0 else nat \<lfloor>h\<rfloor>);
          hi = (if real (n - 1) \<le> h then n - 1 else if h < 0 then 0 else nat \<lfloor>h\<rfloor> + 1);
          gam = rnd (h - (if real (n - 1) \<le> h then - 1 else if h < 0 then 0
                           else real_of_int \<lfloor>h\<rfloor>))
      in numpy_lerp rnd (a ! lo) (a ! hi) gam)"

definition np_percentile_rnd :: "(real \<Rightarrow> real) \<Rightarrow> real list \<Rightarrow> real \<Rightarrow> error + real" where
  "np_percentile_rnd rnd xs q =
     (if xs = [] then Inl IndexError else Inr (percentile_of_sorted rnd (sort xs) q))"

definition np_mean_axis0_rnd ::
  "(real \<Rightarrow> real) \<Rightarrow> nat \<Rightarrow> real list list \<Rightarrow> real option list" where
  "np_mean_axis0_rnd rnd n rows = map (\<lambda>t. np_mean_rnd rnd (column rows t)) [0..<n]"

definition np_std_axis0_rnd ::
  "(real \<Rightarrow> real) \<Rightarrow> nat \<Rightarrow> real list list \<Rightarrow> real option list" where
  "np_std_axis0_rnd rnd n rows = map (\<lambda>t. np_std_rnd rnd (column rows t)) [0..<n]"

definition np_percentile_axis0_rnd ::
  "(real \<Rightarrow> real) \<Rightarrow> nat \<Rightarrow> real list list \<Rightarrow> real \<Rightarrow> error + real list" where
  "np_percentile_axis0_rnd rnd n rows q =
     collect (map (\<lambda>t. np_percentile_rnd rnd (column rows t) q) [0..<n])"

definition compute_statistics_rnd ::
  "(real \<Rightarrow> real) \<Rightarrow> nat \<Rightarrow> real list list \<Rightarrow> real list list \<Rightarrow> error + statistics" where
  "compute_statistics_rnd rnd n all_supplies all_rewards =
     (let mean_s = np_mean_axis0_rnd rnd n all_supplies;
          std_s = np_std_axis0_rnd rnd n all_supplies
      in (case np_percentile_axis0_rnd rnd n all_supplies 5 of
            Inl e \<Rightarrow> Inl e
          | Inr p5 \<Rightarrow>
              (case np_percentile_axis0_rnd rnd n all_supplies 95 of
                 Inl e \<Rightarrow> Inl e
               | Inr p95 \<Rightarrow>
                   Inr \<lparr>mean_supply = mean_s,
                        std_supply = std_s,
                        percentile_5 = p5,
                        percentile_95 = p95,
                        mean_reward = np_mean_axis0_rnd rnd n all_rewards\<rparr>)))"

subsection \<open>The Monte Carlo driver\<close>

text \<open>
  The loop \<open>for i in range(N_SIMULATIONS)\<close>: run \<open>i\<close> is seeded with \<open>i\<close>, and
  its supply and reward arrays become row \<open>i\<close> of \<open>all_supplies\<close> and
  \<open>all_rewards\<close>. The model keeps the list of the runs made so far.
\<close>

fun run_loop ::
  "config \<Rightarrow> (nat \<Rightarrow> rng) \<Rightarrow> nat list \<Rightarrow> trajectory list \<times> rng
     \<Rightarrow> (error + trajectory list) \<times> rng" where
  "run_loop cfg gauss [] s = (Inr (fst s), snd s)"
| "run_loop cfg gauss (i # is) s =
     (case simulate_single_run cfg gauss (Some (int i)) (snd s) of
        (Inl e, g') \<Rightarrow> (Inl e, g')
      | (Inr tr, g') \<Rightarrow> run_loop cfg gauss is (fst s @ [tr], g'))"

record monte_carlo_result =
  mc_time :: "nat list"
  mc_all_supplies :: "real list list"
  mc_statistics :: statistics
  mc_users :: "real list"

text \<open>
  \<open>run_monte_carlo()\<close>. \<open>np.zeros((N_SIMULATIONS, T_STEPS))\<close> refuses a
  negative dimension with ValueError. The report printed after the statistics
  reads the last entry of each series (\<open>mean_supply[-1]\<close>), an IndexError on
  an empty series. The returned \<open>time\<close> and \<open>users\<close> are the variables the
  last run of the loop has bound; they are unbound when the loop has not run.
\<close>

definition run_monte_carlo ::
  "config \<Rightarrow> (nat \<Rightarrow> rng) \<Rightarrow> rng \<Rightarrow> (error + monte_carlo_result) \<times> rng" where
  "run_monte_carlo cfg gauss g0 =
     (if N_SIMULATIONS cfg < 0 \<or> T_STEPS cfg < 0 then (Inl ValueError, g0)
      else
        (case run_loop cfg gauss [0..<nat (N_SIMULATIONS cfg)] ([], g0) of
           (Inl e, g) \<Rightarrow> (Inl e, g)
         | (Inr runs, g) \<Rightarrow>
             (case compute_statistics (nat (T_STEPS cfg))
                     (map supply_arr runs) (map rewards runs) of
                Inl e \<Rightarrow> (Inl e, g)
              | Inr st \<Rightarrow>
                  if T_STEPS cfg = 0 then (Inl IndexError, g)
                  else if runs = [] then (Inl UnboundLocalError, g)
                  else (Inr \<lparr>mc_time = time (last runs),
                             mc_all_supplies = map supply_arr runs,
                             mc_statistics = st,
                             mc_users = users (last runs)\<rparr>, g))))"

subsection \<open>Notions used to state and prove the results\<close>

text \<open>
  The loop runs its body for \<open>t = 1, ..., T_STEPS - 1\<close> on arrays of length
  \<open>T_STEPS\<close>, so every index the body uses is in range and \<open>t - 1\<close> is not
  negative. \<open>in_range\<close> says so of a step; the results about \<open>period_step\<close>
  are stated for such steps only.
\<close>

definition in_range :: "trajectory \<Rightarrow> nat \<Rightarrow> bool" where
  "in_range a t \<longleftrightarrow>
     1 \<le> t \<and> t < length (users a) \<and> t < length (supply_arr a) \<and> t < length (mint_total a)
     \<and> t < length (burn_total a) \<and> t < length (rewards a)"

text \<open>The arrays after a step with mint total \<open>M\<close> and burn total \<open>B\<close>.\<close>

definition step_update :: "config \<Rightarrow> nat \<Rightarrow> trajectory \<Rightarrow> real \<Rightarrow> real \<Rightarrow> trajectory" where
  "step_update cfg t a M B =
     a\<lparr>supply_arr := (supply_arr a)[t := max 0 (supply_arr a ! (t - 1) + M - B)],
       mint_total := (mint_total a)[t := M],
       burn_total := (burn_total a)[t := B],
       rewards := (rewards a)[t := reward_coefficient cfg M B]\<rparr>"

text \<open>What holds of period \<open>t\<close> in the arrays \<open>a\<close>.\<close>

definition period_done :: "config \<Rightarrow> trajectory \<Rightarrow> nat \<Rightarrow> bool" where
  "period_done cfg a t \<longleftrightarrow>
     (\<exists>g1 g1' g2 g2' zs ws.
        mint_per_user cfg (users a ! t) g1 = (Inr zs, g1')
        \<and> burn_per_user cfg (supply_arr a ! (t - 1)) (users a ! t) g2 = (Inr ws, g2')
        \<and> mint_total a ! t = np_sum zs
        \<and> burn_total a ! t = np_sum ws
        \<and> supply_arr a ! t = max 0 (supply_arr a ! (t - 1) + np_sum zs - np_sum ws)
        \<and> rewards a ! t = reward_coefficient cfg (np_sum zs) (np_sum ws))"

text \<open>
  The configurations and seeds for which a run returns: a positive horizon,
  standard deviations that numpy accepts, a capacity that keeps the user
  count from being negative, and a seed that \<open>np.random.seed\<close> accepts.
\<close>

definition valid_config :: "config \<Rightarrow> bool" where
  "valid_config cfg \<longleftrightarrow>
     0 < T_STEPS cfg \<and> 0 \<le> K_MAX_USERS cfg \<and> 0 \<le> sigma_MINT cfg \<and> 0 \<le> sigma_BURN cfg"

definition valid_seed :: "int option \<Rightarrow> bool" where
  "valid_seed seed \<longleftrightarrow> (case seed of None \<Rightarrow> True | Some s \<Rightarrow> 0 \<le> s \<and> s < 2 ^ 32)"

text \<open>The shape of the result of a run with \<open>n\<close> steps.\<close>

definition run_result :: "config \<Rightarrow> nat \<Rightarrow> trajectory \<Rightarrow> bool" where
  "run_result cfg n tr \<longleftrightarrow>
     time tr = [0..<n]
     \<and> users tr = map (\<lambda>t. logistic_growth (real t) (K_MAX_USERS cfg) (r_GROWTH_RATE cfg)
                          (t0_INFLECTION cfg)) [0..<n]
     \<and> length (supply_arr tr) = n \<and> length (mint_total tr) = n
     \<and> length (burn_total tr) = n \<and> length (rewards tr) = n
     \<and> supply_arr tr ! 0 = S0_INITIAL_SUPPLY cfg \<and> mint_total tr ! 0 = 0
     \<and> burn_total tr ! 0 = 0 \<and> rewards tr ! 0 = R0_INITIAL_REWARD cfg
     \<and> (\<forall>t. 1 \<le> t \<and> t < n \<longrightarrow> period_done cfg tr t)"

subsection \<open>Test data\<close>

text \<open>
  A generator whose deviates alternate between \<open>1\<close> and \<open>- 4\<close>, a generator
  state to start from, and configurations small enough to run by hand:
  two periods, with the inflection point at period 1, where the user count
  is \<open>K / 2\<close>. \<open>scenario_A\<close> is the zero-variance configuration of the
  specification.
\<close>

definition test_gauss :: "nat \<Rightarrow> rng" where
  "test_gauss s i = (if even (s + i) then 1 else - 4)"

definition idle_rng :: rng where
  "idle_rng i = 0"

definition small_config :: config where
  "small_config =
     \<lparr>N_SIMULATIONS = 3, T_STEPS = 2,
      K_MAX_USERS = 2, r_GROWTH_RATE = 5 / 100, t0_INFLECTION = 1,
      mu_MINT = 10, sigma_MINT = 3,
      mu_BURN_INITIAL = 2, sigma_BURN = 1,
      S0_INITIAL_SUPPLY = 0, R0_INITIAL_REWARD = 1,
      ALPHA_ADAPTATION = 1 / 10\<rparr>"

definition tiny_config :: config where
  "tiny_config = small_config\<lparr>K_MAX_USERS := 1\<rparr>"

definition flat_config :: config where
  "flat_config =
     \<lparr>N_SIMULATIONS = 3, T_STEPS = 2,
      K_MAX_USERS = 6, r_GROWTH_RATE = 5 / 100, t0_INFLECTION = 1,
      mu_MINT = 2, sigma_MINT = 0,
      mu_BURN_INITIAL = 2, sigma_BURN = 0,
      S0_INITIAL_SUPPLY = 0, R0_INITIAL_REWARD = 1,
      ALPHA_ADAPTATION = 0\<rparr>"

definition half_config :: config where
  "half_config =
     \<lparr>N_SIMULATIONS = 3, T_STEPS = 2,
      K_MAX_USERS = 3, r_GROWTH_RATE = 5 / 100, t0_INFLECTION = 1,
      mu_MINT = 10, sigma_MINT = 3,
      mu_BURN_INITIAL = 2, sigma_BURN = 1,
      S0_INITIAL_SUPPLY = 5, R0_INITIAL_REWARD = 1,
      ALPHA_ADAPTATION = 1 / 10\<rparr>"

definition one_period_run :: "real \<Rightarrow> real \<Rightarrow> trajectory" where
  "one_period_run s r =
     \<lparr>time = [0], supply_arr = [s], users = [1], mint_total = [0], burn_total = [0],
      rewards = [r]\<rparr>"

definition scenario_A :: config where
  "scenario_A =
     \<lparr>N_SIMULATIONS = 100, T_STEPS = 12,
      K_MAX_USERS = 1000, r_GROWTH_RATE = 1 / 10, t0_INFLECTION = 6,
      mu_MINT = 10, sigma_MINT = 0,
      mu_BURN_INITIAL = 2, sigma_BURN = 0,
      S0_INITIAL_SUPPLY = 0, R0_INITIAL_REWARD = 1,
      ALPHA_ADAPTATION = 0\<rparr>"

section \<open>The growth model\<close>

lemma logistic_denominator_pos: "0 < 1 + exp (- r * (t - t0))"
  for r t t0 :: real
  by (simp add: add_pos_pos)

text \<open>
  Claim C7. \<open>logistic_growth\<close> is the function \<open>K / (1 + exp (- r (t - t0)))\<close>
  of its arguments alone; its denominator is positive for every real \<open>t\<close>, so
  the quotient is defined everywhere; for a growth rate \<open>r > 0\<close> (and a
  capacity \<open>K \<ge> 0\<close>, which the configuration invariant \<open>K > 0\<close> gives) it is
  non-decreasing in \<open>t\<close>; and at the inflection point it is exactly \<open>K / 2\<close>.
\<close>

theorem logistic_growth_monotone_midpoint:
  "logistic_growth t K r t0 = K / (1 + exp (- r * (t - t0)))
   \<and> 0 < 1 + exp (- r * (t - t0))
   \<and> (0 \<le> K \<and> 0 < r \<and> t1 < t2 \<longrightarrow> logistic_growth t1 K r t0 \<le> logistic_growth t2 K r t0)
   \<and> logistic_growth t0 K r t0 = K / 2"
proof (intro conjI impI)
  show "logistic_growth t K r t0 = K / (1 + exp (- r * (t - t0)))"
    by (simp add: logistic_growth_def)
  show "0 < 1 + exp (- r * (t - t0))"
    by (rule logistic_denominator_pos)
  show "logistic_growth t0 K r t0 = K / 2"
    by (simp add: logistic_growth_def)
next
  assume h: "0 \<le> K \<and> 0 < r \<and> t1 < t2"
  then have "r * (t1 - t0) \<le> r * (t2 - t0)"
    by (simp add: mult_left_mono)
  then have "exp (- r * (t2 - t0)) \<le> exp (- r * (t1 - t0))"
    by simp
  then have "1 + exp (- r * (t2 - t0)) \<le> 1 + exp (- r * (t1 - t0))"
    by simp
  with h show "logistic_growth t1 K r t0 \<le> logistic_growth t2 K r t0"
    unfolding logistic_growth_def
    by (intro divide_left_mono mult_pos_pos logistic_denominator_pos) simp_all
qed

theorem logistic_growth_monotone_midpoint_witness:
  "(0::real) \<le> 1000 \<and> (0::real) < 1 / 10 \<and> (1::real) < 2
   \<and> logistic_growth 1 1000 (1 / 10) 6 \<le> logistic_growth 2 1000 (1 / 10) 6
   \<and> logistic_growth 6 1000 (1 / 10) 6 = 500"
  using logistic_growth_monotone_midpoint [of 1 1000 "1 / 10" 6 1 2]
  by simp

section \<open>The generator, the loop body and the period loop\<close>

lemma random_normal_ok:
  "0 \<le> scale \<Longrightarrow> 0 \<le> sz \<Longrightarrow>
   random_normal loc scale sz g =
     (Inr (map (\<lambda>i. loc + scale * g i) [0..<nat sz]), (\<lambda>i. g (i + nat sz)))"
  by (simp add: random_normal_def)

lemma random_normal_Inr:
  "random_normal loc scale sz g = (Inr zs, g') \<Longrightarrow>
   0 \<le> scale \<and> 0 \<le> sz \<and> zs = map (\<lambda>i. loc + scale * g i) [0..<nat sz]
   \<and> g' = (\<lambda>i. g (i + nat sz))"
  by (auto simp: random_normal_def split: if_splits)

lemma py_int_nonneg_iff: "0 \<le> py_int x \<longleftrightarrow> - 1 < x"
  unfolding py_int_def by (auto simp: ceiling_le_iff le_ceiling_iff)

lemma py_int_floor: "0 \<le> x \<Longrightarrow> py_int x = \<lfloor>x\<rfloor>"
  by (simp add: py_int_def)

lemma sum_list_max0_nonneg: "0 \<le> sum_list (map (\<lambda>x. max 0 x) (xs::real list))"
  by (induction xs) auto

lemma np_sum_np_maximum_nonneg: "0 \<le> np_sum (np_maximum 0 zs)"
  by (simp add: np_sum_def np_maximum_def sum_list_max0_nonneg)

lemma mint_per_user_ok:
  "0 \<le> sigma_MINT cfg \<Longrightarrow> - 1 < n_t \<Longrightarrow>
   mint_per_user cfg n_t g =
     (Inr (np_maximum 0 (map (\<lambda>i. mu_MINT cfg + sigma_MINT cfg * g i) [0..<nat (py_int n_t)])),
      (\<lambda>i. g (i + nat (py_int n_t))))"
  by (simp add: mint_per_user_def random_normal_ok py_int_nonneg_iff)

lemma mint_per_user_Inr:
  "mint_per_user cfg n_t g = (Inr zs, g') \<Longrightarrow>
   0 \<le> sigma_MINT cfg \<and> - 1 < n_t
   \<and> zs = np_maximum 0 (map (\<lambda>i. mu_MINT cfg + sigma_MINT cfg * g i) [0..<nat (py_int n_t)])
   \<and> g' = (\<lambda>i. g (i + nat (py_int n_t)))"
  by (auto simp: mint_per_user_def py_int_nonneg_iff split: prod.splits sum.splits
           dest!: random_normal_Inr)

lemma burn_per_user_ok:
  "0 \<le> sigma_BURN cfg \<Longrightarrow> - 1 < n_t \<Longrightarrow>
   burn_per_user cfg S n_t g =
     (Inr (np_maximum 0 (map (\<lambda>i. mu_burn_adaptive cfg S n_t + sigma_BURN cfg * g i)
                            [0..<nat (py_int n_t)])),
      (\<lambda>i. g (i + nat (py_int n_t))))"
  by (simp add: burn_per_user_def random_normal_ok py_int_nonneg_iff)

lemma burn_per_user_Inr:
  "burn_per_user cfg S n_t g = (Inr zs, g') \<Longrightarrow>
   0 \<le> sigma_BURN cfg \<and> - 1 < n_t
   \<and> zs = np_maximum 0 (map (\<lambda>i. mu_burn_adaptive cfg S n_t + sigma_BURN cfg * g i)
                            [0..<nat (py_int n_t)])
   \<and> g' = (\<lambda>i. g (i + nat (py_int n_t)))"
  by (auto simp: burn_per_user_def py_int_nonneg_iff split: prod.splits sum.splits
           dest!: random_normal_Inr)

lemma period_step_Inr:
  assumes "period_step cfg t (a, g) = (Inr a', g')" and "t < length (supply_arr a)"
  shows "\<exists>zs g1 ws.
           mint_per_user cfg (users a ! t) g = (Inr zs, g1)
           \<and> burn_per_user cfg (supply_arr a ! (t - 1)) (users a ! t) g1 = (Inr ws, g')
           \<and> a' = step_update cfg t a (np_sum zs) (np_sum ws)"
  using assms
  by (auto simp: period_step_def step_update_def Let_def split: prod.splits sum.splits)

lemma period_step_ok:
  assumes "0 \<le> sigma_MINT cfg" and "0 \<le> sigma_BURN cfg" and "- 1 < users a ! t"
  shows "\<exists>a' g'. period_step cfg t (a, g) = (Inr a', g')"
  using assms
  by (simp add: period_step_def Let_def mint_per_user_ok burn_per_user_ok)

lemma period_loop_append:
  "period_loop cfg (xs @ ys) s =
     (case period_loop cfg xs s of
        (Inl e, g') \<Rightarrow> (Inl e, g')
      | (Inr a', g') \<Rightarrow> period_loop cfg ys (a', g'))"
  by (induction xs arbitrary: s) (auto split: prod.splits sum.splits)

lemma step_update_simps:
  "users (step_update cfg t a M B) = users a"
  "time (step_update cfg t a M B) = time a"
  "length (supply_arr (step_update cfg t a M B)) = length (supply_arr a)"
  "length (mint_total (step_update cfg t a M B)) = length (mint_total a)"
  "length (burn_total (step_update cfg t a M B)) = length (burn_total a)"
  "length (rewards (step_update cfg t a M B)) = length (rewards a)"
  by (simp_all add: step_update_def)

lemma step_update_other:
  assumes "t' \<noteq> t"
  shows "supply_arr (step_update cfg t a M B) ! t' = supply_arr a ! t'"
    and "mint_total (step_update cfg t a M B) ! t' = mint_total a ! t'"
    and "burn_total (step_update cfg t a M B) ! t' = burn_total a ! t'"
    and "rewards (step_update cfg t a M B) ! t' = rewards a ! t'"
  using assms by (simp_all add: step_update_def)

lemma step_update_same:
  assumes "t < length (supply_arr a)" "t < length (mint_total a)"
    "t < length (burn_total a)" "t < length (rewards a)"
  shows "supply_arr (step_update cfg t a M B) ! t = max 0 (supply_arr a ! (t - 1) + M - B)"
    and "mint_total (step_update cfg t a M B) ! t = M"
    and "burn_total (step_update cfg t a M B) ! t = B"
    and "rewards (step_update cfg t a M B) ! t = reward_coefficient cfg M B"
  using assms by (simp_all add: step_update_def)

lemma period_doneI:
  assumes "mint_per_user cfg (users a ! t) g1 = (Inr zs, g1')"
    and "burn_per_user cfg (supply_arr a ! (t - 1)) (users a ! t) g2 = (Inr ws, g2')"
    and "mint_total a ! t = np_sum zs"
    and "burn_total a ! t = np_sum ws"
    and "supply_arr a ! t = max 0 (supply_arr a ! (t - 1) + np_sum zs - np_sum ws)"
    and "rewards a ! t = reward_coefficient cfg (np_sum zs) (np_sum ws)"
  shows "period_done cfg a t"
  unfolding period_done_def using assms by blast

lemma period_done_cong:
  assumes "period_done cfg a t" and "users a' = users a"
    and "supply_arr a' ! t = supply_arr a ! t" "supply_arr a' ! (t - 1) = supply_arr a ! (t - 1)"
    and "mint_total a' ! t = mint_total a ! t" "burn_total a' ! t = burn_total a ! t"
    and "rewards a' ! t = rewards a ! t"
  shows "period_done cfg a' t"
  using assms unfolding period_done_def by simp

lemma period_loop_upto:
  assumes sm: "0 \<le> sigma_MINT cfg" and sb: "0 \<le> sigma_BURN cfg"
    and us: "\<forall>t<N. - 1 < users a0 ! t"
    and len: "length (supply_arr a0) = N" "length (mint_total a0) = N"
             "length (burn_total a0) = N" "length (rewards a0) = N"
    and n: "n \<le> N"
  shows "\<exists>a g'. period_loop cfg [1..<n] (a0, g) = (Inr a, g')
           \<and> users a = users a0 \<and> time a = time a0
           \<and> length (supply_arr a) = N \<and> length (mint_total a) = N
           \<and> length (burn_total a) = N \<and> length (rewards a) = N
           \<and> (\<forall>t. t = 0 \<or> n \<le> t \<longrightarrow>
                 supply_arr a ! t = supply_arr a0 ! t \<and> mint_total a ! t = mint_total a0 ! t
                 \<and> burn_total a ! t = burn_total a0 ! t \<and> rewards a ! t = rewards a0 ! t)
           \<and> (\<forall>t. 1 \<le> t \<and> t < n \<longrightarrow> period_done cfg a t)"
  using n
proof (induction n)
  case 0
  then show ?case using len by simp
next
  case (Suc n)
  show ?case
  proof (cases "n = 0")
    case True
    then show ?thesis using len by simp
  next
    case False
    then have split: "[1..<Suc n] = [1..<n] @ [n]" by simp
    from Suc have nN: "n < N" by simp
    with Suc.IH obtain a g1 where
      run: "period_loop cfg [1..<n] (a0, g) = (Inr a, g1)"
      and same: "users a = users a0" "time a = time a0"
      and la: "length (supply_arr a) = N" "length (mint_total a) = N"
              "length (burn_total a) = N" "length (rewards a) = N"
      and untouched: "\<forall>t. t = 0 \<or> n \<le> t \<longrightarrow>
                 supply_arr a ! t = supply_arr a0 ! t \<and> mint_total a ! t = mint_total a0 ! t
                 \<and> burn_total a ! t = burn_total a0 ! t \<and> rewards a ! t = rewards a0 ! t"
      and dn: "\<forall>t. 1 \<le> t \<and> t < n \<longrightarrow> period_done cfg a t"
      by auto
    from us nN same have un: "- 1 < users a ! n" by simp
    from period_step_ok [OF sm sb un] obtain a' g' where
      step: "period_step cfg n (a, g1) = (Inr a', g')" by blast
    from period_step_Inr [OF step] la nN obtain zs g2 ws where
      mint: "mint_per_user cfg (users a ! n) g1 = (Inr zs, g2)"
      and burn: "burn_per_user cfg (supply_arr a ! (n - 1)) (users a ! n) g2 = (Inr ws, g')"
      and a': "a' = step_update cfg n a (np_sum zs) (np_sum ws)"
      by auto
    have loop: "period_loop cfg [1..<Suc n] (a0, g) = (Inr a', g')"
      by (simp only: split period_loop_append run step prod.case sum.case period_loop.simps
            fst_conv snd_conv)
    have other: "\<And>t. t \<noteq> n \<Longrightarrow>
        supply_arr a' ! t = supply_arr a ! t \<and> mint_total a' ! t = mint_total a ! t
        \<and> burn_total a' ! t = burn_total a ! t \<and> rewards a' ! t = rewards a ! t"
      by (simp add: a' step_update_other)
    have here: "supply_arr a' ! n = max 0 (supply_arr a ! (n - 1) + np_sum zs - np_sum ws)"
      "mint_total a' ! n = np_sum zs" "burn_total a' ! n = np_sum ws"
      "rewards a' ! n = reward_coefficient cfg (np_sum zs) (np_sum ws)"
      using la nN by (simp_all add: a' step_update_same)
    have usr: "users a' = users a" by (simp add: a' step_update_simps)
    have prev: "supply_arr a' ! (n - 1) = supply_arr a ! (n - 1)"
      using False other [of "n - 1"] by simp
    have "period_done cfg a' n"
    proof (rule period_doneI)
      show "mint_per_user cfg (users a' ! n) g1 = (Inr zs, g2)"
        using mint usr by simp
      show "burn_per_user cfg (supply_arr a' ! (n - 1)) (users a' ! n) g2 = (Inr ws, g')"
        using burn usr prev by simp
      show "supply_arr a' ! n = max 0 (supply_arr a' ! (n - 1) + np_sum zs - np_sum ws)"
        using here prev by simp
    qed (simp_all add: here)
    moreover have "period_done cfg a' t" if "1 \<le> t" "t < n" for t
    proof -
      from that dn have "period_done cfg a t" by simp
      moreover from that have "t \<noteq> n" "t - 1 \<noteq> n" by simp_all
      ultimately show ?thesis
        using other usr by (intro period_done_cong [of cfg a t a']) simp_all
    qed
    ultimately have all_done: "\<forall>t. 1 \<le> t \<and> t < Suc n \<longrightarrow> period_done cfg a' t"
      by (auto simp: less_Suc_eq)
    have unt': "\<forall>t. t = 0 \<or> Suc n \<le> t \<longrightarrow>
                 supply_arr a' ! t = supply_arr a0 ! t \<and> mint_total a' ! t = mint_total a0 ! t
                 \<and> burn_total a' ! t = burn_total a0 ! t \<and> rewards a' ! t = rewards a0 ! t"
    proof (intro allI impI)
      fix t assume "t = 0 \<or> Suc n \<le> t"
      with False have "t \<noteq> n" "t = 0 \<or> n \<le> t" by auto
      with other [of t] untouched show "supply_arr a' ! t = supply_arr a0 ! t \<and> mint_total a' ! t = mint_total a0 ! t
                 \<and> burn_total a' ! t = burn_total a0 ! t \<and> rewards a' ! t = rewards a0 ! t"
        by simp
    qed
    have "users a' = users a0" "time a' = time a0"
      "length (supply_arr a') = N" "length (mint_total a') = N"
      "length (burn_total a') = N" "length (rewards a') = N"
      using same la by (simp_all add: a' step_update_simps)
    with loop unt' all_done show ?thesis by blast
  qed
qed

lemma logistic_growth_nonneg: "0 \<le> K \<Longrightarrow> 0 \<le> logistic_growth t K r t0"
  unfolding logistic_growth_def
  by (intro divide_nonneg_pos logistic_denominator_pos)

lemma logistic_growth_pos: "0 < K \<Longrightarrow> 0 < logistic_growth t K r t0"
  unfolding logistic_growth_def
  by (intro divide_pos_pos logistic_denominator_pos)

lemma seeding_ok:
  "valid_seed seed \<Longrightarrow>
   \<exists>g. (case seed of None \<Rightarrow> (Inr (), g0) | Some s \<Rightarrow> random_seed gauss s g0) = (Inr (), g)"
  by (auto simp: valid_seed_def random_seed_def split: option.splits)

lemma initial_arrays_simps:
  "time (initial_arrays cfg n) = [0..<n]"
  "users (initial_arrays cfg n) =
     map (\<lambda>t. logistic_growth (real t) (K_MAX_USERS cfg) (r_GROWTH_RATE cfg) (t0_INFLECTION cfg))
       [0..<n]"
  "length (supply_arr (initial_arrays cfg n)) = n"
  "length (mint_total (initial_arrays cfg n)) = n"
  "length (burn_total (initial_arrays cfg n)) = n"
  "length (rewards (initial_arrays cfg n)) = n"
  by (simp_all add: initial_arrays_def)

lemma initial_arrays_nth:
  assumes "t < n"
  shows "supply_arr (initial_arrays cfg n) ! t = (if t = 0 then S0_INITIAL_SUPPLY cfg else 0)"
    and "mint_total (initial_arrays cfg n) ! t = 0"
    and "burn_total (initial_arrays cfg n) ! t = 0"
    and "rewards (initial_arrays cfg n) ! t = R0_INITIAL_REWARD cfg"
    and "users (initial_arrays cfg n) ! t =
           logistic_growth (real t) (K_MAX_USERS cfg) (r_GROWTH_RATE cfg) (t0_INFLECTION cfg)"
  using assms by (simp_all add: initial_arrays_def nth_list_update)

lemma run_ok:
  assumes "valid_config cfg" and "valid_seed seed"
  shows "\<exists>tr g'. simulate_single_run cfg gauss seed g0 = (Inr tr, g')
           \<and> run_result cfg (nat (T_STEPS cfg)) tr"
proof -
  define n where "n = nat (T_STEPS cfg)"
  from assms(1) have T: "0 < T_STEPS cfg" and K: "0 \<le> K_MAX_USERS cfg"
    and sm: "0 \<le> sigma_MINT cfg" and sb: "0 \<le> sigma_BURN cfg"
    by (simp_all add: valid_config_def)
  from T have npos: "0 < n" by (simp add: n_def)
  from seeding_ok [OF assms(2)] obtain g where
    seed: "(case seed of None \<Rightarrow> (Inr (), g0) | Some s \<Rightarrow> random_seed gauss s g0) = (Inr (), g)"
    by blast
  have us: "\<forall>t<n. - 1 < users (initial_arrays cfg n) ! t"
  proof (intro allI impI)
    fix t assume "t < n"
    then have "users (initial_arrays cfg n) ! t =
        logistic_growth (real t) (K_MAX_USERS cfg) (r_GROWTH_RATE cfg) (t0_INFLECTION cfg)"
      by (rule initial_arrays_nth)
    moreover have "0 \<le> logistic_growth (real t) (K_MAX_USERS cfg) (r_GROWTH_RATE cfg)
        (t0_INFLECTION cfg)"
      using K by (rule logistic_growth_nonneg)
    ultimately show "- 1 < users (initial_arrays cfg n) ! t" by simp
  qed
  from period_loop_upto [OF sm sb us initial_arrays_simps(3-6) order_refl, of g]
  obtain a g' where
    loop: "period_loop cfg [1..<n] (initial_arrays cfg n, g) = (Inr a, g')"
    and same: "users a = users (initial_arrays cfg n)" "time a = time (initial_arrays cfg n)"
    and la: "length (supply_arr a) = n" "length (mint_total a) = n"
            "length (burn_total a) = n" "length (rewards a) = n"
    and untouched: "\<forall>t. t = 0 \<or> n \<le> t \<longrightarrow>
          supply_arr a ! t = supply_arr (initial_arrays cfg n) ! t
          \<and> mint_total a ! t = mint_total (initial_arrays cfg n) ! t
          \<and> burn_total a ! t = burn_total (initial_arrays cfg n) ! t
          \<and> rewards a ! t = rewards (initial_arrays cfg n) ! t"
    and dn: "\<forall>t. 1 \<le> t \<and> t < n \<longrightarrow> period_done cfg a t"
    by blast
  have run: "simulate_single_run cfg gauss seed g0 = (Inr a, g')"
    using T loop by (simp add: simulate_single_run_def seed n_def)
  from untouched npos have zero:
    "supply_arr a ! 0 = S0_INITIAL_SUPPLY cfg" "mint_total a ! 0 = 0"
    "burn_total a ! 0 = 0" "rewards a ! 0 = R0_INITIAL_REWARD cfg"
    by (simp_all add: initial_arrays_nth)
  have "run_result cfg n a"
    unfolding run_result_def
    using same la zero dn by (simp add: initial_arrays_simps)
  with run show ?thesis unfolding n_def by blast
qed

lemma period_done_facts:
  assumes "period_done cfg a t"
  shows "0 \<le> mint_total a ! t" and "0 \<le> burn_total a ! t" and "0 \<le> supply_arr a ! t"
    and "supply_arr a ! t = max 0 (supply_arr a ! (t - 1) + mint_total a ! t - burn_total a ! t)"
    and "rewards a ! t = reward_coefficient cfg (mint_total a ! t) (burn_total a ! t)"
    and "- 1 < users a ! t"
proof -
  from assms obtain g1 g1' g2 g2' zs ws where
    m: "mint_per_user cfg (users a ! t) g1 = (Inr zs, g1')"
    and b: "burn_per_user cfg (supply_arr a ! (t - 1)) (users a ! t) g2 = (Inr ws, g2')"
    and eqs: "mint_total a ! t = np_sum zs" "burn_total a ! t = np_sum ws"
      "supply_arr a ! t = max 0 (supply_arr a ! (t - 1) + np_sum zs - np_sum ws)"
      "rewards a ! t = reward_coefficient cfg (np_sum zs) (np_sum ws)"
    unfolding period_done_def by blast
  from mint_per_user_Inr [OF m] have zs: "zs = np_maximum 0
      (map (\<lambda>i. mu_MINT cfg + sigma_MINT cfg * g1 i) [0..<nat (py_int (users a ! t))])"
    and u: "- 1 < users a ! t" by simp_all
  from burn_per_user_Inr [OF b] have ws: "ws = np_maximum 0
      (map (\<lambda>i. mu_burn_adaptive cfg (supply_arr a ! (t - 1)) (users a ! t)
                 + sigma_BURN cfg * g2 i) [0..<nat (py_int (users a ! t))])" by simp
  show "0 \<le> mint_total a ! t"
    unfolding eqs zs by (rule np_sum_np_maximum_nonneg)
  show "0 \<le> burn_total a ! t"
    unfolding eqs ws by (rule np_sum_np_maximum_nonneg)
  show "0 \<le> supply_arr a ! t"
    unfolding eqs by simp
  show "supply_arr a ! t = max 0 (supply_arr a ! (t - 1) + mint_total a ! t - burn_total a ! t)"
    by (simp only: eqs)
  show "rewards a ! t = reward_coefficient cfg (mint_total a ! t) (burn_total a ! t)"
    by (simp only: eqs)
  show "- 1 < users a ! t" by (rule u)
qed

lemma period_done_no_users:
  assumes "period_done cfg a t" and "py_int (users a ! t) = 0"
  shows "mint_total a ! t = 0" and "burn_total a ! t = 0"
proof -
  from assms(1) obtain g1 g1' g2 g2' zs ws where
    m: "mint_per_user cfg (users a ! t) g1 = (Inr zs, g1')"
    and b: "burn_per_user cfg (supply_arr a ! (t - 1)) (users a ! t) g2 = (Inr ws, g2')"
    and eqs: "mint_total a ! t = np_sum zs" "burn_total a ! t = np_sum ws"
    unfolding period_done_def by blast
  from mint_per_user_Inr [OF m] assms(2) have "zs = []"
    by (simp add: np_maximum_def)
  then show "mint_total a ! t = 0" by (simp add: eqs np_sum_def)
  from burn_per_user_Inr [OF b] assms(2) have "ws = []"
    by (simp add: np_maximum_def)
  then show "burn_total a ! t = 0" by (simp add: eqs np_sum_def)
qed

lemma sum_list_const_map: "sum_list (map (\<lambda>i. c) [0..<k]) = real k * (c::real)"
  by (induction k) (simp_all add: algebra_simps)

lemma period_done_no_variance:
  assumes "period_done cfg a t" and "sigma_MINT cfg = 0" and "sigma_BURN cfg = 0"
  shows "mint_total a ! t = real (nat (py_int (users a ! t))) * max 0 (mu_MINT cfg)"
    and "burn_total a ! t = real (nat (py_int (users a ! t)))
          * max 0 (mu_burn_adaptive cfg (supply_arr a ! (t - 1)) (users a ! t))"
proof -
  from assms(1) obtain g1 g1' g2 g2' zs ws where
    m: "mint_per_user cfg (users a ! t) g1 = (Inr zs, g1')"
    and b: "burn_per_user cfg (supply_arr a ! (t - 1)) (users a ! t) g2 = (Inr ws, g2')"
    and eqs: "mint_total a ! t = np_sum zs" "burn_total a ! t = np_sum ws"
    unfolding period_done_def by blast
  from mint_per_user_Inr [OF m] assms(2)
  show "mint_total a ! t = real (nat (py_int (users a ! t))) * max 0 (mu_MINT cfg)"
    by (simp add: eqs np_sum_def np_maximum_def comp_def sum_list_const_map)
  from burn_per_user_Inr [OF b] assms(3)
  show "burn_total a ! t = real (nat (py_int (users a ! t)))
          * max 0 (mu_burn_adaptive cfg (supply_arr a ! (t - 1)) (users a ! t))"
    by (simp add: eqs np_sum_def np_maximum_def comp_def sum_list_const_map)
qed

section \<open>Properties of a simulation run\<close>

lemmas run_unfold =
  simulate_single_run_def random_seed_def initial_arrays_def
  period_step_def mint_per_user_def burn_per_user_def random_normal_def py_int_def
  Let_def np_maximum_def np_sum_def mu_burn_adaptive_def reward_coefficient_def
  test_gauss_def logistic_growth_def upt_conv_Cons numeral_2_eq_2

lemma small_run:
  "fst (simulate_single_run small_config test_gauss (Some 0) idle_rng) =
     Inr \<lparr>time = [0, 1], supply_arr = [0, 13],
           users = [logistic_growth 0 2 (5 / 100) 1, 1],
           mint_total = [0, 13], burn_total = [0, 0], rewards = [1, 0]\<rparr>"
  by (simp add: small_config_def run_unfold)

lemma heavy_burn_run:
  "fst (simulate_single_run (small_config\<lparr>mu_BURN_INITIAL := 1000\<rparr>) test_gauss (Some 0) idle_rng) =
     Inr \<lparr>time = [0, 1], supply_arr = [0, 0],
           users = [logistic_growth 0 2 (5 / 100) 1, 1],
           mint_total = [0, 13], burn_total = [0, 996], rewards = [1, 996 / 13]\<rparr>"
  by (simp add: small_config_def run_unfold)

lemma negative_start_run:
  "fst (simulate_single_run (small_config\<lparr>S0_INITIAL_SUPPLY := - 1\<rparr>) test_gauss (Some 0) idle_rng) =
     Inr \<lparr>time = [0, 1], supply_arr = [- 1, 12],
           users = [logistic_growth 0 2 (5 / 100) 1, 1],
           mint_total = [0, 13], burn_total = [0, 0], rewards = [1, 0]\<rparr>"
  by (simp add: small_config_def run_unfold)

lemma small_config_valid:
  "valid_config small_config"
  "valid_config (small_config\<lparr>mu_BURN_INITIAL := 1000\<rparr>)"
  "valid_config (small_config\<lparr>S0_INITIAL_SUPPLY := - 1\<rparr>)"
  "valid_seed (Some 0)"
  by (simp_all add: valid_config_def valid_seed_def small_config_def)

text \<open>
  Claim C1, as the code has it. For every configuration with a positive
  horizon, a capacity \<open>K \<ge> 0\<close> and standard deviations \<open>\<ge> 0\<close>, every seed
  and every state of the generator, the run returns a trajectory in which
  the mint total and the burn total of every period are non-negative. The
  supply of every period \<open>t \<ge> 1\<close> is non-negative, and it is exactly 0 when
  the burn total exceeds the previous supply plus the mint total. Period 0
  holds the configured initial supply \<open>S0\<close> unchanged, so the supply of
  period 0 is non-negative when \<open>S0\<close> is.
\<close>

theorem totals_nonnegative_supply_floored:
  assumes "valid_config cfg" and "valid_seed seed"
  shows "\<exists>tr g'. simulate_single_run cfg gauss seed g = (Inr tr, g')
           \<and> supply_arr tr ! 0 = S0_INITIAL_SUPPLY cfg
           \<and> (\<forall>t<nat (T_STEPS cfg).
                 0 \<le> mint_total tr ! t \<and> 0 \<le> burn_total tr ! t
                 \<and> (1 \<le> t \<or> 0 \<le> S0_INITIAL_SUPPLY cfg \<longrightarrow> 0 \<le> supply_arr tr ! t)
                 \<and> (1 \<le> t \<and> supply_arr tr ! (t - 1) + mint_total tr ! t < burn_total tr ! t
                      \<longrightarrow> supply_arr tr ! t = 0))"
proof -
  from run_ok [OF assms] obtain tr g' where
    run: "simulate_single_run cfg gauss seed g = (Inr tr, g')"
    and res: "run_result cfg (nat (T_STEPS cfg)) tr" by blast
  from res have zero: "supply_arr tr ! 0 = S0_INITIAL_SUPPLY cfg" "mint_total tr ! 0 = 0"
      "burn_total tr ! 0 = 0"
    and dn: "\<And>t. 1 \<le> t \<Longrightarrow> t < nat (T_STEPS cfg) \<Longrightarrow> period_done cfg tr t"
    by (simp_all add: run_result_def)
  have "0 \<le> mint_total tr ! t \<and> 0 \<le> burn_total tr ! t
        \<and> (1 \<le> t \<or> 0 \<le> S0_INITIAL_SUPPLY cfg \<longrightarrow> 0 \<le> supply_arr tr ! t)
        \<and> (1 \<le> t \<and> supply_arr tr ! (t - 1) + mint_total tr ! t < burn_total tr ! t
              \<longrightarrow> supply_arr tr ! t = 0)"
    if "t < nat (T_STEPS cfg)" for t
  proof (cases "t = 0")
    case True
    with zero show ?thesis by simp
  next
    case False
    with that have pd: "period_done cfg tr t" by (simp add: dn)
    have "supply_arr tr ! t = 0"
      if "supply_arr tr ! (t - 1) + mint_total tr ! t < burn_total tr ! t"
      using period_done_facts(4) [OF pd] that by simp
    with period_done_facts(1-3) [OF pd] show ?thesis by simp
  qed
  with run zero show ?thesis by blast
qed

text \<open>
  Scenario D on a two-period run: the burn of period 1 exceeds supply plus
  mint and the supply is floored at 0.
\<close>

theorem totals_nonnegative_supply_floored_witness:
  "valid_config (small_config\<lparr>mu_BURN_INITIAL := 1000\<rparr>) \<and> valid_seed (Some 0)
   \<and> (case fst (simulate_single_run (small_config\<lparr>mu_BURN_INITIAL := 1000\<rparr>)
                  test_gauss (Some 0) idle_rng) of
         Inl e \<Rightarrow> False
       | Inr tr \<Rightarrow>
           0 \<le> mint_total tr ! 1 \<and> 0 \<le> burn_total tr ! 1 \<and> 0 \<le> supply_arr tr ! 1
           \<and> supply_arr tr ! 0 + mint_total tr ! 1 < burn_total tr ! 1
           \<and> supply_arr tr ! 1 = 0)"
  using totals_nonnegative_supply_floored
    [OF small_config_valid(2) small_config_valid(4), of test_gauss idle_rng]
  by (simp add: small_config_valid heavy_burn_run)

text \<open>
  Claim C1 as stated, for every configuration and every period, fails at
  period 0 of a run whose configured initial supply is \<open>- 1\<close>: the run
  returns a trajectory whose first supply entry is negative.
\<close>

theorem negative_initial_supply_counterexample:
  "valid_config (small_config\<lparr>S0_INITIAL_SUPPLY := - 1\<rparr>) \<and> valid_seed (Some 0)
   \<and> (case fst (simulate_single_run (small_config\<lparr>S0_INITIAL_SUPPLY := - 1\<rparr>)
                  test_gauss (Some 0) idle_rng) of
         Inl e \<Rightarrow> False
       | Inr tr \<Rightarrow> supply_arr tr ! 0 < 0)"
  by (simp add: small_config_valid negative_start_run)

text \<open>
  Claim C5. A run that is given a seed returns the same result (all six
  series, or the same exception) whatever state the global generator was in
  before the call; in particular a second call with the same seed, made
  right after the first, returns what the first returned.
\<close>

theorem same_seed_same_trajectory:
  "fst (simulate_single_run cfg gauss (Some s) g1) = fst (simulate_single_run cfg gauss (Some s) g2)
   \<and> fst (simulate_single_run cfg gauss (Some s)
            (snd (simulate_single_run cfg gauss (Some s) g1)))
       = fst (simulate_single_run cfg gauss (Some s) g1)"
  by (simp add: simulate_single_run_def random_seed_def)

lemma flat_run:
  "fst (simulate_single_run flat_config test_gauss (Some 0) idle_rng) =
     Inr \<lparr>time = [0, 1], supply_arr = [0, 0],
           users = [logistic_growth 0 6 (5 / 100) 1, 3],
           mint_total = [0, 6], burn_total = [0, 6], rewards = [1, 1]\<rparr>"
  by (simp add: flat_config_def run_unfold)

lemma tiny_run:
  "fst (simulate_single_run tiny_config test_gauss (Some 0) idle_rng) =
     Inr \<lparr>time = [0, 1], supply_arr = [0, 0],
           users = [logistic_growth 0 1 (5 / 100) 1, 1 / 2],
           mint_total = [0, 0], burn_total = [0, 0], rewards = [1, 1]\<rparr>"
  by (simp add: tiny_config_def small_config_def run_unfold)

lemma more_configs_valid:
  "valid_config flat_config"
  "valid_config tiny_config"
  by (simp_all add: valid_config_def flat_config_def small_config_def tiny_config_def)

text \<open>
  Claim C2. In every period \<open>t \<ge> 1\<close> of a run the mint total is
  non-negative; when it is positive the reward coefficient is
  \<open>R0 * (B_t / M_t)\<close>, a linear function of the ratio with slope \<open>R0\<close>; when
  it is 0 the coefficient is \<open>R0\<close> and nothing is divided; and when burn and
  mint totals are equal and positive the coefficient is \<open>R0\<close>.
\<close>

theorem reward_coefficient_rule:
  assumes "valid_config cfg" and "valid_seed seed"
  shows "\<exists>tr g'. simulate_single_run cfg gauss seed g = (Inr tr, g')
           \<and> (\<forall>t. 1 \<le> t \<and> t < nat (T_STEPS cfg) \<longrightarrow>
                 0 \<le> mint_total tr ! t
                 \<and> (0 < mint_total tr ! t \<longrightarrow>
                      rewards tr ! t
                        = R0_INITIAL_REWARD cfg * (burn_total tr ! t / mint_total tr ! t))
                 \<and> (mint_total tr ! t = 0 \<longrightarrow> rewards tr ! t = R0_INITIAL_REWARD cfg)
                 \<and> (0 < mint_total tr ! t \<and> burn_total tr ! t = mint_total tr ! t \<longrightarrow>
                      rewards tr ! t = R0_INITIAL_REWARD cfg))"
proof -
  from run_ok [OF assms] obtain tr g' where
    run: "simulate_single_run cfg gauss seed g = (Inr tr, g')"
    and res: "run_result cfg (nat (T_STEPS cfg)) tr" by blast
  have "0 \<le> mint_total tr ! t
        \<and> (0 < mint_total tr ! t \<longrightarrow>
              rewards tr ! t = R0_INITIAL_REWARD cfg * (burn_total tr ! t / mint_total tr ! t))
        \<and> (mint_total tr ! t = 0 \<longrightarrow> rewards tr ! t = R0_INITIAL_REWARD cfg)
        \<and> (0 < mint_total tr ! t \<and> burn_total tr ! t = mint_total tr ! t \<longrightarrow>
              rewards tr ! t = R0_INITIAL_REWARD cfg)"
    if "1 \<le> t" "t < nat (T_STEPS cfg)" for t
  proof -
    from res that have pd: "period_done cfg tr t" by (simp add: run_result_def)
    from period_done_facts(1,5) [OF pd] show ?thesis
      by (simp add: reward_coefficient_def)
  qed
  with run show ?thesis by blast
qed

theorem reward_coefficient_rule_witness:
  "valid_seed (Some 0)
   \<and> valid_config small_config
   \<and> (case fst (simulate_single_run small_config test_gauss (Some 0) idle_rng) of
         Inl e \<Rightarrow> False
       | Inr tr \<Rightarrow> 0 < mint_total tr ! 1
           \<and> rewards tr ! 1 = R0_INITIAL_REWARD small_config
                * (burn_total tr ! 1 / mint_total tr ! 1))
   \<and> valid_config tiny_config
   \<and> (case fst (simulate_single_run tiny_config
                  test_gauss (Some 0) idle_rng) of
         Inl e \<Rightarrow> False
       | Inr tr \<Rightarrow> mint_total tr ! 1 = 0
           \<and> rewards tr ! 1 = R0_INITIAL_REWARD tiny_config)
   \<and> valid_config flat_config
   \<and> (case fst (simulate_single_run flat_config test_gauss (Some 0) idle_rng) of
         Inl e \<Rightarrow> False
       | Inr tr \<Rightarrow> 0 < mint_total tr ! 1 \<and> burn_total tr ! 1 = mint_total tr ! 1
           \<and> rewards tr ! 1 = R0_INITIAL_REWARD flat_config)"
  using reward_coefficient_rule [OF small_config_valid(1) small_config_valid(4),
      of test_gauss idle_rng]
    reward_coefficient_rule [OF more_configs_valid(2) small_config_valid(4),
      of test_gauss idle_rng]
    reward_coefficient_rule [OF more_configs_valid(1) small_config_valid(4),
      of test_gauss idle_rng]
  by (simp add: small_config_valid more_configs_valid small_run tiny_run flat_run)
    (simp add: small_config_def flat_config_def tiny_config_def)

lemma period_step_users:
  "period_step cfg t (a, g) = (Inr a', g') \<Longrightarrow> users a' = users a \<and> time a' = time a"
  by (auto simp: period_step_def Let_def split: prod.splits sum.splits)

lemma period_loop_users:
  "period_loop cfg ts (a, g) = (Inr a', g') \<Longrightarrow> users a' = users a \<and> time a' = time a"
proof (induction ts arbitrary: a g)
  case Nil
  then show ?case by simp
next
  case (Cons t ts)
  then show ?case
    by (auto split: prod.splits sum.splits dest!: period_step_users)
qed

lemma run_users:
  assumes "fst (simulate_single_run cfg gauss seed g) = Inr tr"
  shows "users tr = map (\<lambda>t. logistic_growth (real t) (K_MAX_USERS cfg) (r_GROWTH_RATE cfg)
                           (t0_INFLECTION cfg)) [0..<nat (T_STEPS cfg)]"
proof -
  from assms obtain g' where "simulate_single_run cfg gauss seed g = (Inr tr, g')"
    by (cases "simulate_single_run cfg gauss seed g") simp
  then show ?thesis
    by (auto simp: simulate_single_run_def initial_arrays_simps
        split: prod.splits sum.splits if_splits dest!: period_loop_users)
qed

text \<open>
  Claim C9. Whenever two runs of the same configuration return, with any
  seeds and any generators, their \<open>users\<close> arrays are equal, and entry \<open>t\<close>
  is the logistic count at \<open>t\<close> for every \<open>t\<close> from 0 on. A run of a valid
  configuration with a valid seed does return.
\<close>

theorem users_series_independent_of_seed:
  "(fst (simulate_single_run cfg gauss1 seed1 g1) = Inr tr1
      \<and> fst (simulate_single_run cfg gauss2 seed2 g2) = Inr tr2 \<longrightarrow>
        users tr1 = users tr2
        \<and> length (users tr1) = nat (T_STEPS cfg)
        \<and> (\<forall>t<nat (T_STEPS cfg).
              users tr1 ! t = logistic_growth (real t) (K_MAX_USERS cfg) (r_GROWTH_RATE cfg)
                                (t0_INFLECTION cfg)))
   \<and> (valid_config cfg \<and> valid_seed seed1 \<longrightarrow>
        (\<exists>tr g'. simulate_single_run cfg gauss1 seed1 g1 = (Inr tr, g')))"
proof (intro conjI impI)
  assume h: "fst (simulate_single_run cfg gauss1 seed1 g1) = Inr tr1
      \<and> fst (simulate_single_run cfg gauss2 seed2 g2) = Inr tr2"
  have u1: "users tr1 = map (\<lambda>t. logistic_growth (real t) (K_MAX_USERS cfg)
        (r_GROWTH_RATE cfg) (t0_INFLECTION cfg)) [0..<nat (T_STEPS cfg)]"
    and u2: "users tr2 = map (\<lambda>t. logistic_growth (real t) (K_MAX_USERS cfg)
        (r_GROWTH_RATE cfg) (t0_INFLECTION cfg)) [0..<nat (T_STEPS cfg)]"
    by (rule h [THEN conjunct1, THEN run_users], rule h [THEN conjunct2, THEN run_users])
  show "users tr1 = users tr2" by (simp only: u1 u2)
  show "length (users tr1) = nat (T_STEPS cfg)" by (simp add: u1)
  show "\<forall>t<nat (T_STEPS cfg).
          users tr1 ! t = logistic_growth (real t) (K_MAX_USERS cfg) (r_GROWTH_RATE cfg)
                            (t0_INFLECTION cfg)"
    by (simp add: u1)
next
  assume "valid_config cfg \<and> valid_seed seed1"
  with run_ok [of cfg seed1 gauss1 g1]
  show "\<exists>tr g'. simulate_single_run cfg gauss1 seed1 g1 = (Inr tr, g')" by blast
qed

lemma small_run_seed_1:
  "fst (simulate_single_run small_config test_gauss (Some 1) idle_rng) =
     Inr \<lparr>time = [0, 1], supply_arr = [0, 0],
          users = [logistic_growth 0 2 (5 / 100) 1, 1],
          mint_total = [0, 0], burn_total = [0, 3], rewards = [1, 1]\<rparr>"
  by (simp add: small_config_def run_unfold)

theorem users_series_independent_of_seed_witness:
  "valid_config small_config \<and> valid_seed (Some 0)
   \<and> fst (simulate_single_run small_config test_gauss (Some 0) idle_rng) =
       Inr \<lparr>time = [0, 1], supply_arr = [0, 13],
            users = [logistic_growth 0 2 (5 / 100) 1, 1],
            mint_total = [0, 13], burn_total = [0, 0], rewards = [1, 0]\<rparr>
   \<and> fst (simulate_single_run small_config test_gauss (Some 1) idle_rng) =
       Inr \<lparr>time = [0, 1], supply_arr = [0, 0],
            users = [logistic_growth 0 2 (5 / 100) 1, 1],
            mint_total = [0, 0], burn_total = [0, 3], rewards = [1, 1]\<rparr>
   \<and> [logistic_growth 0 2 (5 / 100) 1, 1]
       = map (\<lambda>t. logistic_growth (real t) 2 (5 / 100) 1) [0..<2]"
  using users_series_independent_of_seed
    [of small_config test_gauss "Some 0" idle_rng
        "\<lparr>time = [0, 1], supply_arr = [0, 13],
            users = [logistic_growth 0 2 (5 / 100) 1, 1],
            mint_total = [0, 13], burn_total = [0, 0], rewards = [1, 0]\<rparr>"
        test_gauss "Some 1" idle_rng
        "\<lparr>time = [0, 1], supply_arr = [0, 0],
            users = [logistic_growth 0 2 (5 / 100) 1, 1],
            mint_total = [0, 0], burn_total = [0, 3], rewards = [1, 1]\<rparr>"]
  by (simp add: small_config_valid small_run small_run_seed_1)
    (simp add: small_config_def logistic_growth_def upt_conv_Cons numeral_2_eq_2)

text \<open>
  Claim C8. A period whose user count truncates to 0 leaves the generator
  as it was (no sample is drawn), sets the mint and burn totals to 0 and the
  reward coefficient to \<open>R0\<close>; the denominator \<open>n_t + 1\<close> of the burn mean is
  positive there, and the reward is assigned by the branch that does not
  divide. The same holds of every such period of a run, and period 0 has
  mint and burn totals 0 and reward \<open>R0\<close> in every run.
\<close>

theorem zero_population_period:
  "(in_range a t \<and> 0 \<le> sigma_MINT cfg \<and> 0 \<le> sigma_BURN cfg
      \<and> py_int (users a ! t) = 0 \<longrightarrow>
      period_step cfg t (a, g) =
        (Inr (a\<lparr>supply_arr := (supply_arr a)[t := max 0 (supply_arr a ! (t - 1))],
                 mint_total := (mint_total a)[t := 0],
                 burn_total := (burn_total a)[t := 0],
                 rewards := (rewards a)[t := R0_INITIAL_REWARD cfg]\<rparr>), g)
      \<and> 0 < users a ! t + 1)
   \<and> (valid_config cfg \<and> valid_seed seed \<longrightarrow>
        (\<exists>tr g'. simulate_single_run cfg gauss seed g0 = (Inr tr, g')
           \<and> mint_total tr ! 0 = 0 \<and> burn_total tr ! 0 = 0
           \<and> rewards tr ! 0 = R0_INITIAL_REWARD cfg
           \<and> (\<forall>t. 1 \<le> t \<and> t < nat (T_STEPS cfg) \<and> py_int (users tr ! t) = 0 \<longrightarrow>
                 mint_total tr ! t = 0 \<and> burn_total tr ! t = 0
                 \<and> rewards tr ! t = R0_INITIAL_REWARD cfg
                 \<and> 0 < users tr ! t + 1)))"
proof (intro conjI impI)
  assume h: "in_range a t \<and> 0 \<le> sigma_MINT cfg \<and> 0 \<le> sigma_BURN cfg
      \<and> py_int (users a ! t) = 0"
  then have "0 \<le> py_int (users a ! t)" by simp
  then have u: "- 1 < users a ! t" by (simp only: py_int_nonneg_iff)
  then show "0 < users a ! t + 1" by simp
  have upd: "(supply_arr a)[t := max 0 ((supply_arr a)[t := x] ! t)]
               = (supply_arr a)[t := max 0 x]" for x
    using h by (simp add: in_range_def)
  from h u show "period_step cfg t (a, g) =
        (Inr (a\<lparr>supply_arr := (supply_arr a)[t := max 0 (supply_arr a ! (t - 1))],
                 mint_total := (mint_total a)[t := 0],
                 burn_total := (burn_total a)[t := 0],
                 rewards := (rewards a)[t := R0_INITIAL_REWARD cfg]\<rparr>), g)"
    by (simp add: period_step_def Let_def mint_per_user_ok burn_per_user_ok np_maximum_def
        np_sum_def reward_coefficient_def upd)
next
  assume "valid_config cfg \<and> valid_seed seed"
  with run_ok [of cfg seed gauss g0] obtain tr g' where
    run: "simulate_single_run cfg gauss seed g0 = (Inr tr, g')"
    and res: "run_result cfg (nat (T_STEPS cfg)) tr" by blast
  from res have zero: "mint_total tr ! 0 = 0" "burn_total tr ! 0 = 0"
      "rewards tr ! 0 = R0_INITIAL_REWARD cfg"
    by (simp_all add: run_result_def)
  have "mint_total tr ! t = 0 \<and> burn_total tr ! t = 0
        \<and> rewards tr ! t = R0_INITIAL_REWARD cfg \<and> 0 < users tr ! t + 1"
    if "1 \<le> t \<and> t < nat (T_STEPS cfg) \<and> py_int (users tr ! t) = 0" for t
  proof -
    from res that have pd: "period_done cfg tr t" by (simp add: run_result_def)
    from that have z: "py_int (users tr ! t) = 0" by simp
    from period_done_no_users [OF pd z] period_done_facts(5,6) [OF pd]
    show ?thesis by (simp add: reward_coefficient_def)
  qed
  with run zero
  show "\<exists>tr g'. simulate_single_run cfg gauss seed g0 = (Inr tr, g')
           \<and> mint_total tr ! 0 = 0 \<and> burn_total tr ! 0 = 0
           \<and> rewards tr ! 0 = R0_INITIAL_REWARD cfg
           \<and> (\<forall>t. 1 \<le> t \<and> t < nat (T_STEPS cfg) \<and> py_int (users tr ! t) = 0 \<longrightarrow>
                 mint_total tr ! t = 0 \<and> burn_total tr ! t = 0
                 \<and> rewards tr ! t = R0_INITIAL_REWARD cfg
                 \<and> 0 < users tr ! t + 1)"
    by blast
qed

theorem zero_population_period_witness:
  "in_range (initial_arrays tiny_config 2) 1
   \<and> 0 \<le> sigma_MINT tiny_config \<and> 0 \<le> sigma_BURN tiny_config
   \<and> py_int (users (initial_arrays tiny_config 2) ! 1) = 0
   \<and> snd (period_step tiny_config 1 (initial_arrays tiny_config 2, test_gauss 0)) = test_gauss 0
   \<and> valid_config tiny_config \<and> valid_seed (Some 0)
   \<and> (case fst (simulate_single_run tiny_config test_gauss (Some 0) idle_rng) of
         Inl e \<Rightarrow> False
       | Inr tr \<Rightarrow>
           py_int (users tr ! 1) = 0 \<and> mint_total tr ! 1 = 0 \<and> burn_total tr ! 1 = 0
           \<and> rewards tr ! 1 = R0_INITIAL_REWARD tiny_config)"
  using zero_population_period
    [of "initial_arrays tiny_config 2" 1 tiny_config "test_gauss 0" "Some 0" test_gauss idle_rng]
  by (simp add: more_configs_valid small_config_valid tiny_run)
    (simp add: in_range_def initial_arrays_def tiny_config_def small_config_def py_int_def
      logistic_growth_def upt_conv_Cons numeral_2_eq_2)

lemma period_done_draws:
  assumes "period_done cfg a t" and "0 \<le> users a ! t"
  shows "\<exists>g1 g2.
           mint_total a ! t =
             np_sum (np_maximum 0 (map (\<lambda>i. mu_MINT cfg + sigma_MINT cfg * g1 i)
                                     [0..<nat \<lfloor>users a ! t\<rfloor>]))
           \<and> burn_total a ! t =
               np_sum (np_maximum 0
                 (map (\<lambda>i. mu_BURN_INITIAL cfg
                              * (1 + ALPHA_ADAPTATION cfg
                                       * (supply_arr a ! (t - 1) / (users a ! t + 1)))
                            + sigma_BURN cfg * g2 i)
                    [0..<nat \<lfloor>users a ! t\<rfloor>]))"
proof -
  from assms(1) obtain g1 g1' g2 g2' zs ws where
    m: "mint_per_user cfg (users a ! t) g1 = (Inr zs, g1')"
    and b: "burn_per_user cfg (supply_arr a ! (t - 1)) (users a ! t) g2 = (Inr ws, g2')"
    and eqs: "mint_total a ! t = np_sum zs" "burn_total a ! t = np_sum ws"
    unfolding period_done_def by blast
  from mint_per_user_Inr [OF m] assms(2)
  have "mint_total a ! t = np_sum (np_maximum 0
          (map (\<lambda>i. mu_MINT cfg + sigma_MINT cfg * g1 i) [0..<nat \<lfloor>users a ! t\<rfloor>]))"
    by (simp add: eqs py_int_floor)
  moreover from burn_per_user_Inr [OF b] assms(2)
  have "burn_total a ! t = np_sum (np_maximum 0
          (map (\<lambda>i. mu_BURN_INITIAL cfg
                       * (1 + ALPHA_ADAPTATION cfg
                                * (supply_arr a ! (t - 1) / (users a ! t + 1)))
                     + sigma_BURN cfg * g2 i)
             [0..<nat \<lfloor>users a ! t\<rfloor>]))"
    by (simp add: eqs py_int_floor mu_burn_adaptive_def)
  ultimately show ?thesis by blast
qed

text \<open>
  Claim C10. In a period with user count \<open>n_t \<ge> 0\<close> the mint samples and
  the burn samples are \<open>\<lfloor>n_t\<rfloor>\<close> values each, while the mean of the burn
  samples is \<open>mu_BURN_INITIAL * (1 + ALPHA * S_prev / (n_t + 1))\<close> with the
  count \<open>n_t\<close> itself. In every period \<open>t \<ge> 1\<close> of a run \<open>n_t\<close> is the
  logistic count at \<open>t\<close>, and the totals of the period are sums of that
  many clamped samples with that mean.
\<close>

theorem sample_counts_and_burn_mean:
  "(in_range a t \<and> 0 \<le> sigma_MINT cfg \<and> 0 \<le> sigma_BURN cfg \<and> 0 \<le> users a ! t \<longrightarrow>
      (let n_t = users a ! t;
           k = nat \<lfloor>n_t\<rfloor>;
           mints = np_maximum 0 (map (\<lambda>i. mu_MINT cfg + sigma_MINT cfg * g i) [0..<k]);
           burns = np_maximum 0
                     (map (\<lambda>i. mu_BURN_INITIAL cfg
                                  * (1 + ALPHA_ADAPTATION cfg
                                           * (supply_arr a ! (t - 1) / (n_t + 1)))
                                + sigma_BURN cfg * g (i + k))
                        [0..<k])
       in length mints = k \<and> length burns = k
          \<and> fst (mint_per_user cfg n_t g) = Inr mints
          \<and> fst (burn_per_user cfg (supply_arr a ! (t - 1)) n_t (snd (mint_per_user cfg n_t g)))
              = Inr burns
          \<and> fst (period_step cfg t (a, g))
              = Inr (a\<lparr>supply_arr := (supply_arr a)
                           [t := max 0 (supply_arr a ! (t - 1) + np_sum mints - np_sum burns)],
                       mint_total := (mint_total a)[t := np_sum mints],
                       burn_total := (burn_total a)[t := np_sum burns],
                       rewards := (rewards a)
                           [t := reward_coefficient cfg (np_sum mints) (np_sum burns)]\<rparr>)))
   \<and> (valid_config cfg \<and> valid_seed seed \<longrightarrow>
        (\<exists>tr g'. simulate_single_run cfg gauss seed g0 = (Inr tr, g')
           \<and> (\<forall>t. 1 \<le> t \<and> t < nat (T_STEPS cfg) \<longrightarrow>
                 in_range tr t
                 \<and> users tr ! t = logistic_growth (real t) (K_MAX_USERS cfg)
                                    (r_GROWTH_RATE cfg) (t0_INFLECTION cfg)
                 \<and> 0 \<le> users tr ! t
                 \<and> (\<exists>g1 g2.
                       mint_total tr ! t =
                         np_sum (np_maximum 0
                           (map (\<lambda>i. mu_MINT cfg + sigma_MINT cfg * g1 i)
                              [0..<nat \<lfloor>users tr ! t\<rfloor>]))
                       \<and> burn_total tr ! t =
                           np_sum (np_maximum 0
                             (map (\<lambda>i. mu_BURN_INITIAL cfg
                                          * (1 + ALPHA_ADAPTATION cfg
                                                   * (supply_arr tr ! (t - 1)
                                                        / (users tr ! t + 1)))
                                        + sigma_BURN cfg * g2 i)
                                [0..<nat \<lfloor>users tr ! t\<rfloor>]))))))"
proof (intro conjI impI)
  assume h: "in_range a t \<and> 0 \<le> sigma_MINT cfg \<and> 0 \<le> sigma_BURN cfg \<and> 0 \<le> users a ! t"
  then have u: "- 1 < users a ! t" and fl: "py_int (users a ! t) = \<lfloor>users a ! t\<rfloor>"
    and len: "t < length (supply_arr a)"
    by (simp_all add: py_int_floor in_range_def)
  have upd: "(supply_arr a)[t := max 0 ((supply_arr a)[t := x] ! t)]
               = (supply_arr a)[t := max 0 x]" for x
    using len by simp
  from h u show "let n_t = users a ! t;
           k = nat \<lfloor>n_t\<rfloor>;
           mints = np_maximum 0 (map (\<lambda>i. mu_MINT cfg + sigma_MINT cfg * g i) [0..<k]);
           burns = np_maximum 0
                     (map (\<lambda>i. mu_BURN_INITIAL cfg
                                  * (1 + ALPHA_ADAPTATION cfg
                                           * (supply_arr a ! (t - 1) / (n_t + 1)))
                                + sigma_BURN cfg * g (i + k))
                        [0..<k])
       in length mints = k \<and> length burns = k
          \<and> fst (mint_per_user cfg n_t g) = Inr mints
          \<and> fst (burn_per_user cfg (supply_arr a ! (t - 1)) n_t (snd (mint_per_user cfg n_t g)))
              = Inr burns
          \<and> fst (period_step cfg t (a, g))
              = Inr (a\<lparr>supply_arr := (supply_arr a)
                           [t := max 0 (supply_arr a ! (t - 1) + np_sum mints - np_sum burns)],
                       mint_total := (mint_total a)[t := np_sum mints],
                       burn_total := (burn_total a)[t := np_sum burns],
                       rewards := (rewards a)
                           [t := reward_coefficient cfg (np_sum mints) (np_sum burns)]\<rparr>)"
    by (simp add: Let_def period_step_def mint_per_user_ok burn_per_user_ok fl
        mu_burn_adaptive_def np_maximum_def upd)
next
  assume "valid_config cfg \<and> valid_seed seed"
  with run_ok [of cfg seed gauss g0] obtain tr g' where
    run: "simulate_single_run cfg gauss seed g0 = (Inr tr, g')"
    and res: "run_result cfg (nat (T_STEPS cfg)) tr" by blast
  have "in_range tr t
        \<and> users tr ! t = logistic_growth (real t) (K_MAX_USERS cfg)
                           (r_GROWTH_RATE cfg) (t0_INFLECTION cfg)
        \<and> 0 \<le> users tr ! t
        \<and> (\<exists>g1 g2.
              mint_total tr ! t =
                np_sum (np_maximum 0
                  (map (\<lambda>i. mu_MINT cfg + sigma_MINT cfg * g1 i)
                     [0..<nat \<lfloor>users tr ! t\<rfloor>]))
              \<and> burn_total tr ! t =
                  np_sum (np_maximum 0
                    (map (\<lambda>i. mu_BURN_INITIAL cfg
                                 * (1 + ALPHA_ADAPTATION cfg
                                          * (supply_arr tr ! (t - 1)
                                               / (users tr ! t + 1)))
                               + sigma_BURN cfg * g2 i)
                       [0..<nat \<lfloor>users tr ! t\<rfloor>])))"
    if t: "1 \<le> t \<and> t < nat (T_STEPS cfg)" for t
  proof -
    from res t have pd: "period_done cfg tr t" by (simp add: run_result_def)
    from res t have rng: "in_range tr t" by (simp add: run_result_def in_range_def)
    from res t have us: "users tr ! t = logistic_growth (real t) (K_MAX_USERS cfg)
                           (r_GROWTH_RATE cfg) (t0_INFLECTION cfg)"
      by (simp add: run_result_def)
    from \<open>valid_config cfg \<and> valid_seed seed\<close> have "0 \<le> K_MAX_USERS cfg"
      by (simp add: valid_config_def)
    then have nn: "0 \<le> users tr ! t"
      unfolding us by (rule logistic_growth_nonneg)
    from period_done_draws [OF pd nn] rng us nn show ?thesis by simp
  qed
  with run show "\<exists>tr g'. simulate_single_run cfg gauss seed g0 = (Inr tr, g')
           \<and> (\<forall>t. 1 \<le> t \<and> t < nat (T_STEPS cfg) \<longrightarrow>
                 in_range tr t
                 \<and> users tr ! t = logistic_growth (real t) (K_MAX_USERS cfg)
                                    (r_GROWTH_RATE cfg) (t0_INFLECTION cfg)
                 \<and> 0 \<le> users tr ! t
                 \<and> (\<exists>g1 g2.
                       mint_total tr ! t =
                         np_sum (np_maximum 0
                           (map (\<lambda>i. mu_MINT cfg + sigma_MINT cfg * g1 i)
                              [0..<nat \<lfloor>users tr ! t\<rfloor>]))
                       \<and> burn_total tr ! t =
                           np_sum (np_maximum 0
                             (map (\<lambda>i. mu_BURN_INITIAL cfg
                                          * (1 + ALPHA_ADAPTATION cfg
                                                   * (supply_arr tr ! (t - 1)
                                                        / (users tr ! t + 1)))
                                        + sigma_BURN cfg * g2 i)
                                [0..<nat \<lfloor>users tr ! t\<rfloor>]))))"
    by blast
qed

lemma half_run:
  "fst (simulate_single_run half_config test_gauss (Some 1) idle_rng) =
     Inr \<lparr>time = [0, 1], supply_arr = [5, 8 / 5],
          users = [logistic_growth 0 3 (5 / 100) 1, 3 / 2],
          mint_total = [0, 0], burn_total = [0, 17 / 5], rewards = [1, 1]\<rparr>"
  by (simp add: half_config_def run_unfold)

theorem sample_counts_and_burn_mean_witness:
  "in_range (initial_arrays half_config 2) 1
   \<and> 0 \<le> sigma_MINT half_config \<and> 0 \<le> sigma_BURN half_config
   \<and> users (initial_arrays half_config 2) ! 1 = 3 / 2
   \<and> nat \<lfloor>3 / 2 :: real\<rfloor> = 1
   \<and> fst (mint_per_user half_config (3 / 2) (test_gauss 1)) = Inr [0]
   \<and> fst (burn_per_user half_config 5 (3 / 2)
             (snd (mint_per_user half_config (3 / 2) (test_gauss 1)))) = Inr [17 / 5]
   \<and> valid_config half_config \<and> valid_seed (Some 1)
   \<and> (case fst (simulate_single_run half_config test_gauss (Some 1) idle_rng) of
         Inl e \<Rightarrow> False
       | Inr tr \<Rightarrow>
           users tr ! 1 = 3 / 2 \<and> mint_total tr ! 1 = 0 \<and> burn_total tr ! 1 = 17 / 5
           \<and> supply_arr tr ! 1 = 8 / 5)"
  using sample_counts_and_burn_mean
    [of "initial_arrays half_config 2" 1 half_config "test_gauss 1" "Some 1" test_gauss idle_rng]
  by (simp add: half_run)
    (simp add: in_range_def initial_arrays_def half_config_def py_int_def valid_config_def
      valid_seed_def logistic_growth_def upt_conv_Cons numeral_2_eq_2 mint_per_user_def
      burn_per_user_def random_normal_def np_maximum_def mu_burn_adaptive_def test_gauss_def)

section \<open>Statistics over the runs\<close>

lemma column_map: "column (map f runs) t = map (\<lambda>tr. f tr ! t) runs"
  by (simp add: column_def)

lemma mset_column:
  assumes "mset runs' = mset runs"
  shows "mset (column (map f runs') t) = mset (column (map f runs) t)"
proof -
  have "mset (map (\<lambda>tr. f tr ! t) runs') = mset (map (\<lambda>tr. f tr ! t) runs)"
    using assms by (simp only: mset_map)
  then show ?thesis by (simp only: column_map)
qed

lemma sum_list_mset_cong:
  fixes xs ys :: "real list"
  assumes "mset xs = mset ys"
  shows "sum_list xs = sum_list ys"
proof -
  have "sum_mset (mset xs) = sum_mset (mset ys)" using assms by simp
  then show ?thesis by (simp only: sum_mset_sum_list)
qed

lemma np_mean_mset_cong:
  assumes "mset xs = mset ys"
  shows "np_mean xs = np_mean ys"
proof -
  from assms have "length xs = length ys" by (rule mset_eq_length)
  moreover from this have "xs = [] \<longleftrightarrow> ys = []" by auto
  moreover from assms have "sum_list xs = sum_list ys" by (rule sum_list_mset_cong)
  ultimately show ?thesis by (simp add: np_mean_def)
qed

lemma np_std_mset_cong:
  assumes "mset xs = mset ys"
  shows "np_std xs = np_std ys"
proof -
  have "mset (map (\<lambda>x. \<bar>x - m\<bar> ^ 2) xs) = mset (map (\<lambda>x. \<bar>x - m\<bar> ^ 2) ys)" for m
    using assms by (simp only: mset_map)
  then have "np_mean (map (\<lambda>x. \<bar>x - m\<bar> ^ 2) xs) = np_mean (map (\<lambda>x. \<bar>x - m\<bar> ^ 2) ys)" for m
    by (rule np_mean_mset_cong)
  with np_mean_mset_cong [OF assms] show ?thesis
    by (simp add: np_std_def split: option.splits)
qed

lemma sort_mset_cong:
  fixes xs ys :: "real list"
  assumes "mset xs = mset ys"
  shows "sort xs = sort ys"
proof -
  have "sorted_list_of_multiset (mset xs) = sorted_list_of_multiset (mset ys)"
    using assms by simp
  then show ?thesis by (simp only: sorted_list_of_multiset_mset)
qed

lemma np_percentile_mset_cong:
  assumes "mset xs = mset ys"
  shows "np_percentile xs q = np_percentile ys q"
proof -
  from assms have "length xs = length ys" by (rule mset_eq_length)
  moreover from this have "xs = [] \<longleftrightarrow> ys = []" by auto
  moreover from assms have "sort xs = sort ys" by (rule sort_mset_cong)
  ultimately show ?thesis by (simp add: np_percentile_def)
qed

lemma statistics_mset_cong:
  assumes "mset runs' = mset runs"
  shows "compute_statistics n (map supply_arr runs') (map rewards runs')
           = compute_statistics n (map supply_arr runs) (map rewards runs)"
proof -
  have m: "np_mean_axis0 n (map f runs') = np_mean_axis0 n (map f runs)" for f
    unfolding np_mean_axis0_def
    by (intro map_cong refl np_mean_mset_cong mset_column assms)
  have s: "np_std_axis0 n (map f runs') = np_std_axis0 n (map f runs)" for f
    unfolding np_std_axis0_def
    by (intro map_cong refl np_std_mset_cong mset_column assms)
  have p: "np_percentile_axis0 n (map f runs') q = np_percentile_axis0 n (map f runs) q" for f q
    unfolding np_percentile_axis0_def
    by (intro arg_cong [where f = collect] map_cong refl np_percentile_mset_cong mset_column assms)
  show ?thesis
    by (simp only: compute_statistics_def m s p)
qed

lemma percentile_position:
  fixes q :: real
  assumes "xs \<noteq> []" and "0 \<le> q" and "q \<le> 100"
  defines "h \<equiv> real (length xs - 1) * (q / 100)"
  shows "0 \<le> h" and "h \<le> real (length xs - 1)" and "nat \<lfloor>h\<rfloor> \<le> length xs - 1"
    and "0 \<le> h - real (nat \<lfloor>h\<rfloor>)" and "h - real (nat \<lfloor>h\<rfloor>) < 1"
proof -
  show h0: "0 \<le> h" using assms by (simp add: h_def)
  have "q / 100 \<le> 1" using assms by simp
  then have "real (length xs - 1) * (q / 100) \<le> real (length xs - 1) * 1"
    by (intro mult_left_mono) simp_all
  then show h1: "h \<le> real (length xs - 1)" by (simp add: h_def)
  from h1 have "\<lfloor>h\<rfloor> \<le> int (length xs - 1)" by (simp add: floor_le_iff)
  then show "nat \<lfloor>h\<rfloor> \<le> length xs - 1" by simp
  from h0 have r: "real (nat \<lfloor>h\<rfloor>) = of_int \<lfloor>h\<rfloor>" by simp
  show "0 \<le> h - real (nat \<lfloor>h\<rfloor>)" unfolding r by linarith
  show "h - real (nat \<lfloor>h\<rfloor>) < 1" unfolding r by linarith
qed

section \<open>The Monte Carlo driver\<close>

lemma collect_all_Inl:
  "0 < n \<Longrightarrow> collect (map (\<lambda>t. Inl e) [0..<n]) = Inl e"
  by (simp add: upt_conv_Cons)

lemma np_percentile_axis0_no_rows:
  "np_percentile_axis0 n [] q = (if n = 0 then Inr [] else Inl IndexError)"
  by (simp add: np_percentile_axis0_def column_def np_percentile_def collect_all_Inl)

lemma compute_statistics_no_rows:
  "0 < n \<Longrightarrow> compute_statistics n [] [] = Inl IndexError"
  by (simp add: compute_statistics_def np_percentile_axis0_no_rows Let_def)

lemma run_monte_carlo_no_runs:
  assumes "N_SIMULATIONS cfg \<le> 0"
  shows "run_monte_carlo cfg gauss g =
           (Inl (if N_SIMULATIONS cfg < 0 \<or> T_STEPS cfg < 0 then ValueError else IndexError), g)"
proof (cases "N_SIMULATIONS cfg < 0 \<or> T_STEPS cfg < 0")
  case True
  then show ?thesis by (simp add: run_monte_carlo_def)
next
  case False
  with assms have N: "N_SIMULATIONS cfg = 0" and T: "0 \<le> T_STEPS cfg" by simp_all
  show ?thesis
  proof (cases "T_STEPS cfg = 0")
    case True
    with N show ?thesis
      by (simp add: run_monte_carlo_def compute_statistics_def np_percentile_axis0_no_rows)
  next
    case False
    with T have "0 < nat (T_STEPS cfg)" by simp
    then have "compute_statistics (nat (T_STEPS cfg)) [] [] = Inl IndexError"
      by (rule compute_statistics_no_rows)
    with N T False show ?thesis
      by (simp add: run_monte_carlo_def)
  qed
qed

text \<open>
  With a valid configuration and a run count between 1 and \<open>2^32\<close> the
  driver returns, with one row of \<open>all_supplies\<close> per run.
\<close>

lemma run_loop_ok:
  assumes "valid_config cfg" and "\<forall>i\<in>set js. int i < 2 ^ 32"
  shows "\<exists>runs g'. run_loop cfg gauss js (acc, g) = (Inr (acc @ runs), g')
           \<and> length runs = length js"
  using assms(2)
proof (induction js arbitrary: acc g)
  case Nil
  then show ?case by simp
next
  case (Cons i js)
  then have "valid_seed (Some (int i))" by (simp add: valid_seed_def)
  from run_ok [OF assms(1) this, of gauss g] obtain tr g1 where
    run: "simulate_single_run cfg gauss (Some (int i)) g = (Inr tr, g1)" by blast
  from Cons.prems have "\<forall>i\<in>set js. int i < 2 ^ 32" by simp
  from Cons.IH [OF this, of "acc @ [tr]" g1] obtain runs g' where
    "run_loop cfg gauss js (acc @ [tr], g1) = (Inr ((acc @ [tr]) @ runs), g')"
    and "length runs = length js" by blast
  with run have "run_loop cfg gauss (i # js) (acc, g) = (Inr (acc @ (tr # runs)), g')
      \<and> length (tr # runs) = length (i # js)" by simp
  then show ?case by blast
qed

lemma collect_all_Inr:
  "collect (map (\<lambda>t. Inr (f t)) ts) = Inr (map f ts)"
  by (induction ts) simp_all

lemma np_percentile_axis0_rows:
  assumes "rows \<noteq> []"
  shows "\<exists>ps. np_percentile_axis0 n rows q = Inr ps"
proof -
  have "column rows t \<noteq> []" for t using assms by (simp add: column_def)
  then have "\<exists>v. np_percentile (column rows t) q = Inr v" for t
    by (simp add: np_percentile_def Let_def)
  then obtain f where f: "\<And>t. np_percentile (column rows t) q = Inr (f t)" by metis
  show ?thesis
    unfolding np_percentile_axis0_def by (simp add: f collect_all_Inr)
qed

lemma compute_statistics_rows:
  assumes "rows \<noteq> []"
  shows "\<exists>st. compute_statistics n rows rows' = Inr st"
proof -
  from np_percentile_axis0_rows [OF assms] obtain p5 p95 where
    "np_percentile_axis0 n rows 5 = Inr p5" "np_percentile_axis0 n rows 95 = Inr p95"
    by metis
  then show ?thesis by (simp add: compute_statistics_def Let_def)
qed

lemma run_monte_carlo_ok:
  assumes "valid_config cfg" and "0 < N_SIMULATIONS cfg" and "N_SIMULATIONS cfg \<le> 2 ^ 32"
  shows "\<exists>res g'. run_monte_carlo cfg gauss g = (Inr res, g')
           \<and> length (mc_all_supplies res) = nat (N_SIMULATIONS cfg)"
proof -
  from assms(1) have T: "0 < T_STEPS cfg" by (simp add: valid_config_def)
  have "\<forall>i\<in>set [0..<nat (N_SIMULATIONS cfg)]. int i < 2 ^ 32"
    using assms(3) by auto
  from run_loop_ok [OF assms(1) this, of gauss "[]" g] obtain runs g' where
    loop: "run_loop cfg gauss [0..<nat (N_SIMULATIONS cfg)] ([], g) = (Inr runs, g')"
    and len: "length runs = nat (N_SIMULATIONS cfg)" by auto
  from len assms(2) have ne: "runs \<noteq> []" by auto
  then have "map supply_arr runs \<noteq> []" by simp
  from compute_statistics_rows [OF this] obtain st where
    st: "compute_statistics (nat (T_STEPS cfg)) (map supply_arr runs) (map rewards runs) = Inr st"
    by blast
  from T assms(2) loop st ne len show ?thesis
    by (simp add: run_monte_carlo_def)
qed

text \<open>
  Claim C4, as the code has it. The module does not check the run count and
  has no error class of its own. With a run count \<open>\<le> 0\<close> the call still ends
  in an exception and no run is made: the loop over the runs has nothing to
  do and the global generator is left as it was. A negative count (or a
  negative horizon) fails at once, in \<open>np.zeros\<close>, with ValueError; with
  count 0 and a horizon \<open>\<ge> 0\<close> the arrays are allocated, the loop is
  skipped, and the statistics of the empty sample raise IndexError. The result is never the ConfigurationError of the
  specification.
\<close>

theorem nonpositive_run_count_fails_without_runs:
  "N_SIMULATIONS cfg \<le> 0 \<longrightarrow>
     run_monte_carlo cfg gauss g =
       (Inl (if N_SIMULATIONS cfg < 0 \<or> T_STEPS cfg < 0 then ValueError else IndexError), g)
     \<and> fst (run_monte_carlo cfg gauss g) \<noteq> Inl ConfigurationError
     \<and> run_loop cfg gauss [0..<nat (N_SIMULATIONS cfg)] ([], g) = (Inr [], g)"
proof
  assume h: "N_SIMULATIONS cfg \<le> 0"
  note r = run_monte_carlo_no_runs [OF h, of gauss g]
  from h have "run_loop cfg gauss [0..<nat (N_SIMULATIONS cfg)] ([], g) = (Inr [], g)"
    by simp
  with r show "run_monte_carlo cfg gauss g =
       (Inl (if N_SIMULATIONS cfg < 0 \<or> T_STEPS cfg < 0 then ValueError else IndexError), g)
     \<and> fst (run_monte_carlo cfg gauss g) \<noteq> Inl ConfigurationError
     \<and> run_loop cfg gauss [0..<nat (N_SIMULATIONS cfg)] ([], g) = (Inr [], g)"
    by simp
qed

theorem nonpositive_run_count_fails_without_runs_witness:
  "N_SIMULATIONS (module_constants\<lparr>N_SIMULATIONS := 0\<rparr>) \<le> 0
   \<and> run_monte_carlo (module_constants\<lparr>N_SIMULATIONS := 0\<rparr>) test_gauss idle_rng
       = (Inl IndexError, idle_rng)
   \<and> N_SIMULATIONS (module_constants\<lparr>N_SIMULATIONS := - 1\<rparr>) \<le> 0
   \<and> run_monte_carlo (module_constants\<lparr>N_SIMULATIONS := - 1\<rparr>) test_gauss idle_rng
       = (Inl ValueError, idle_rng)"
  using nonpositive_run_count_fails_without_runs
      [of "module_constants\<lparr>N_SIMULATIONS := 0\<rparr>" test_gauss idle_rng]
    nonpositive_run_count_fails_without_runs
      [of "module_constants\<lparr>N_SIMULATIONS := - 1\<rparr>" test_gauss idle_rng]
  by (simp add: module_constants_def)

text \<open>
  Claim C4 as stated fails for the module's constants with run count 0: the
  call ends in IndexError, raised after the (empty) loop by the statistics,
  not in a ConfigurationError raised by a check of the count.
\<close>

theorem zero_run_count_counterexample:
  "N_SIMULATIONS (module_constants\<lparr>N_SIMULATIONS := 0\<rparr>) \<le> 0
   \<and> fst (run_monte_carlo (module_constants\<lparr>N_SIMULATIONS := 0\<rparr>) test_gauss idle_rng)
       = Inl IndexError
   \<and> fst (run_monte_carlo (module_constants\<lparr>N_SIMULATIONS := 0\<rparr>) test_gauss idle_rng)
       \<noteq> Inl ConfigurationError"
  using run_monte_carlo_no_runs [of "module_constants\<lparr>N_SIMULATIONS := 0\<rparr>" test_gauss idle_rng]
  by (simp add: module_constants_def)

section \<open>Scenario A: a run without variance\<close>

lemma exp_half_lower: "311 / 189 < exp (1 / 2 :: real)"
proof -
  have "1 + 1 / 8 + (1 / 8)\<^sup>2 / 2 \<le> exp (1 / 8 :: real)"
    by (rule exp_lower_Taylor_quadratic) simp
  then have "(145 / 128 :: real) \<le> exp (1 / 8)"
    by (simp add: power2_eq_square)
  then have "(145 / 128 :: real) ^ 4 \<le> exp (1 / 8) ^ 4"
    by (intro power_mono) simp_all
  also have "exp (1 / 8 :: real) ^ 4 = exp (of_nat 4 * (1 / 8))"
    by (simp only: exp_of_nat_mult)
  also have "\<dots> = exp (1 / 2)" by simp
  finally have "(145 / 128 :: real) ^ 4 \<le> exp (1 / 2)" .
  moreover have "(311 / 189 :: real) < (145 / 128) ^ 4" by (simp add: power_divide)
  ultimately show ?thesis by linarith
qed

lemma exp_half_upper: "exp (1 / 2 :: real) < 623 / 377"
proof -
  have "exp (1 / 128 :: real) \<le> 1 + 1 / 128 + (1 / 128)\<^sup>2"
    by (rule exp_bound) simp_all
  then have "exp (1 / 128 :: real) \<le> 16513 / 16384"
    by (simp add: power2_eq_square)
  then have "exp (1 / 128 :: real) ^ 64 \<le> (16513 / 16384) ^ 64"
    by (intro power_mono) simp_all
  moreover have "exp (1 / 128 :: real) ^ 64 = exp (of_nat 64 * (1 / 128))"
    by (simp only: exp_of_nat_mult)
  moreover have "exp (of_nat 64 * (1 / 128) :: real) = exp (1 / 2)" by simp
  moreover have "(16513 / 16384 :: real) ^ 64 < 623 / 377" by (simp add: power_divide)
  ultimately show ?thesis by linarith
qed

lemma scenario_A_users_1:
  "logistic_growth 1 1000 (1 / 10) 6 = 1000 / (1 + exp (1 / 2))"
  by (simp add: logistic_growth_def)

lemma scenario_A_users_1_bounds:
  shows "377 < logistic_growth 1 1000 (1 / 10) 6"
    and "logistic_growth 1 1000 (1 / 10) 6 < 378"
proof -
  have pos: "0 < 1 + exp (1 / 2 :: real)" by (simp add: add_pos_pos)
  have "377 * (1 + exp (1 / 2 :: real)) < 1000" using exp_half_upper by simp
  then show "377 < logistic_growth 1 1000 (1 / 10) 6"
    unfolding scenario_A_users_1 using pos by (simp add: pos_less_divide_eq)
  have "1000 < 378 * (1 + exp (1 / 2 :: real))" using exp_half_lower by simp
  then show "logistic_growth 1 1000 (1 / 10) 6 < 378"
    unfolding scenario_A_users_1 using pos by (simp add: pos_divide_less_eq)
qed

lemma scenario_A_users_1_floor: "\<lfloor>logistic_growth 1 1000 (1 / 10) 6\<rfloor> = 377"
proof (rule floor_unique)
  show "of_int 377 \<le> logistic_growth 1 1000 (1 / 10) 6"
    using scenario_A_users_1_bounds(1) by simp
  show "logistic_growth 1 1000 (1 / 10) 6 < of_int 377 + 1"
    using scenario_A_users_1_bounds(2) by simp
qed

lemma scenario_A_valid: "valid_config scenario_A"
  by (simp add: valid_config_def scenario_A_def)

lemma scenario_A_period_1:
  assumes "run_result scenario_A (nat (T_STEPS scenario_A)) tr"
  shows "users tr ! 1 = logistic_growth 1 1000 (1 / 10) 6"
    and "mint_total tr ! 1 = 3770" and "burn_total tr ! 1 = 754"
    and "supply_arr tr ! 1 = 3016" and "rewards tr ! 1 = 1 / 5"
proof -
  from assms have pd: "period_done scenario_A tr 1"
    by (simp add: run_result_def scenario_A_def)
  from assms show us: "users tr ! 1 = logistic_growth 1 1000 (1 / 10) 6"
    by (simp add: run_result_def scenario_A_def)
  from assms have s0: "supply_arr tr ! 0 = 0"
    by (simp add: run_result_def scenario_A_def)
  have k: "nat (py_int (users tr ! 1)) = 377"
    unfolding us py_int_def
    using scenario_A_users_1_bounds(1) by (simp add: scenario_A_users_1_floor)
  have sg: "sigma_MINT scenario_A = 0" "sigma_BURN scenario_A = 0"
    by (simp_all add: scenario_A_def)
  from period_done_no_variance(1) [OF pd sg] show m: "mint_total tr ! 1 = 3770"
    unfolding k by (simp add: scenario_A_def)
  from period_done_no_variance(2) [OF pd sg] show b: "burn_total tr ! 1 = 754"
    unfolding k by (simp add: scenario_A_def mu_burn_adaptive_def)
  from period_done_facts(4) [OF pd] show "supply_arr tr ! 1 = 3016"
    unfolding m b by (simp add: s0)
  from period_done_facts(5) [OF pd] show "rewards tr ! 1 = 1 / 5"
    unfolding m b by (simp add: reward_coefficient_def scenario_A_def)
qed

lemma no_variance_entries:
  assumes r1: "run_result cfg n tr1" and r2: "run_result cfg n tr2"
    and sg: "sigma_MINT cfg = 0" "sigma_BURN cfg = 0"
  shows "t < n \<Longrightarrow>
         supply_arr tr1 ! t = supply_arr tr2 ! t \<and> mint_total tr1 ! t = mint_total tr2 ! t
         \<and> burn_total tr1 ! t = burn_total tr2 ! t \<and> rewards tr1 ! t = rewards tr2 ! t"
proof (induction t)
  case 0
  from r1 r2 show ?case by (simp add: run_result_def)
next
  case (Suc t)
  then have prev: "supply_arr tr1 ! t = supply_arr tr2 ! t" by simp
  from r1 r2 have us: "users tr1 = users tr2" by (simp add: run_result_def)
  from r1 Suc.prems have p1: "period_done cfg tr1 (Suc t)" by (simp add: run_result_def)
  from r2 Suc.prems have p2: "period_done cfg tr2 (Suc t)" by (simp add: run_result_def)
  have m: "mint_total tr1 ! Suc t = mint_total tr2 ! Suc t"
    using period_done_no_variance(1) [OF p1 sg] period_done_no_variance(1) [OF p2 sg]
    by (simp add: us)
  have b: "burn_total tr1 ! Suc t = burn_total tr2 ! Suc t"
    using period_done_no_variance(2) [OF p1 sg] period_done_no_variance(2) [OF p2 sg]
    by (simp add: us prev)
  have s: "supply_arr tr1 ! Suc t = supply_arr tr2 ! Suc t"
    using period_done_facts(4) [OF p1] period_done_facts(4) [OF p2]
    by (simp add: m b prev)
  have r: "rewards tr1 ! Suc t = rewards tr2 ! Suc t"
    using period_done_facts(5) [OF p1] period_done_facts(5) [OF p2]
    by (simp add: m b)
  from m b s r show ?case by simp
qed

lemma no_variance_deterministic:
  assumes r1: "run_result cfg n tr1" and r2: "run_result cfg n tr2"
    and sg: "sigma_MINT cfg = 0" "sigma_BURN cfg = 0"
  shows "tr1 = tr2"
proof (rule trajectory.equality)
  note e = no_variance_entries [OF r1 r2 sg]
  from r1 r2 show "time tr1 = time tr2" and "users tr1 = users tr2"
    by (simp_all add: run_result_def)
  from r1 r2 have len: "length (supply_arr tr1) = n" "length (supply_arr tr2) = n"
    "length (mint_total tr1) = n" "length (mint_total tr2) = n"
    "length (burn_total tr1) = n" "length (burn_total tr2) = n"
    "length (rewards tr1) = n" "length (rewards tr2) = n"
    by (simp_all add: run_result_def)
  show "supply_arr tr1 = supply_arr tr2"
    by (rule nth_equalityI) (simp_all add: len e)
  show "mint_total tr1 = mint_total tr2"
    by (rule nth_equalityI) (simp_all add: len e)
  show "burn_total tr1 = burn_total tr2"
    by (rule nth_equalityI) (simp_all add: len e)
  show "rewards tr1 = rewards tr2"
    by (rule nth_equalityI) (simp_all add: len e)
qed simp

lemma scenario_A_run:
  assumes "valid_seed seed"
  shows "\<exists>tr g'. simulate_single_run scenario_A gauss seed g = (Inr tr, g')
           \<and> run_result scenario_A (nat (T_STEPS scenario_A)) tr"
  using run_ok [OF scenario_A_valid assms] .

text \<open>
  Claim C3, as the code has it. Under the zero-variance configuration of
  Scenario A every run with a valid seed returns the same trajectory,
  whatever the generator produces. The user count of period 1 is
  \<open>1000 / (1 + exp (1 / 2))\<close>, between 377 and 378, and the loop draws
  \<open>int(n_t) = 377\<close> samples of each kind, so
  \<open>supply[1] = 377 * 10 - 377 * 2 = 3016\<close>, the truncated count times the
  net mint per user; \<open>reward[1] = 1 * (2 / 10)\<close>.
\<close>

theorem scenario_A_first_period:
  "valid_seed seed \<longrightarrow>
     (\<exists>tr g'. simulate_single_run scenario_A gauss seed g = (Inr tr, g')
        \<and> users tr ! 1 = logistic_growth 1 1000 (1 / 10) 6
        \<and> \<lfloor>users tr ! 1\<rfloor> = 377
        \<and> supply_arr tr ! 1
            = real_of_int \<lfloor>users tr ! 1\<rfloor> * 10 - real_of_int \<lfloor>users tr ! 1\<rfloor> * 2
        \<and> supply_arr tr ! 1 = 3016
        \<and> rewards tr ! 1 = 1 * (2 / 10)
        \<and> (\<forall>gauss' seed' g0. valid_seed seed' \<longrightarrow>
               fst (simulate_single_run scenario_A gauss' seed' g0) = Inr tr))"
proof
  assume sd: "valid_seed seed"
  from scenario_A_run [OF sd] obtain tr g' where
    run: "simulate_single_run scenario_A gauss seed g = (Inr tr, g')"
    and res: "run_result scenario_A (nat (T_STEPS scenario_A)) tr" by blast
  note p1 = scenario_A_period_1 [OF res]
  have fl: "\<lfloor>users tr ! 1\<rfloor> = 377"
    unfolding p1(1) by (rule scenario_A_users_1_floor)
  have sup: "supply_arr tr ! 1
      = real_of_int \<lfloor>users tr ! 1\<rfloor> * 10 - real_of_int \<lfloor>users tr ! 1\<rfloor> * 2"
    unfolding fl p1(4) by simp
  have rew: "rewards tr ! 1 = 1 * (2 / 10)"
    unfolding p1(5) by simp
  have det: "fst (simulate_single_run scenario_A gauss' seed' g0) = Inr tr"
    if "valid_seed seed'" for gauss' seed' g0
  proof -
    from scenario_A_run [OF that] obtain tr' h where
      run': "simulate_single_run scenario_A gauss' seed' g0 = (Inr tr', h)"
      and res': "run_result scenario_A (nat (T_STEPS scenario_A)) tr'" by blast
    have "tr' = tr"
      by (rule no_variance_deterministic [OF res' res]) (simp_all add: scenario_A_def)
    with run' show ?thesis by simp
  qed
  from run p1(1) fl sup p1(4) rew det
  show "\<exists>tr g'. simulate_single_run scenario_A gauss seed g = (Inr tr, g')
        \<and> users tr ! 1 = logistic_growth 1 1000 (1 / 10) 6
        \<and> \<lfloor>users tr ! 1\<rfloor> = 377
        \<and> supply_arr tr ! 1
            = real_of_int \<lfloor>users tr ! 1\<rfloor> * 10 - real_of_int \<lfloor>users tr ! 1\<rfloor> * 2
        \<and> supply_arr tr ! 1 = 3016
        \<and> rewards tr ! 1 = 1 * (2 / 10)
        \<and> (\<forall>gauss' seed' g0. valid_seed seed' \<longrightarrow>
               fst (simulate_single_run scenario_A gauss' seed' g0) = Inr tr)"
    by blast
qed

theorem scenario_A_first_period_witness:
  "valid_seed (Some 0) \<and> valid_seed (Some 7)
   \<and> (case fst (simulate_single_run scenario_A test_gauss (Some 0) idle_rng) of
         Inl e \<Rightarrow> False
       | Inr tr \<Rightarrow>
           supply_arr tr ! 1 = 3016 \<and> rewards tr ! 1 = 1 / 5
           \<and> fst (simulate_single_run scenario_A test_gauss (Some 7) (test_gauss 3)) = Inr tr)"
proof -
  have s0: "valid_seed (Some 0)" and s7: "valid_seed (Some 7)"
    by (simp_all add: valid_seed_def)
  from scenario_A_first_period [of "Some 0" test_gauss idle_rng] s0 obtain tr g' where
    run: "simulate_single_run scenario_A test_gauss (Some 0) idle_rng = (Inr tr, g')"
    and v: "supply_arr tr ! 1 = 3016" "rewards tr ! 1 = 1 * (2 / 10)"
    and det: "\<forall>gauss' seed' g0. valid_seed seed' \<longrightarrow>
               fst (simulate_single_run scenario_A gauss' seed' g0) = Inr tr"
    by blast
  from det s7 have "fst (simulate_single_run scenario_A test_gauss (Some 7) (test_gauss 3)) = Inr tr"
    by blast
  with run v s0 s7 show ?thesis by simp
qed

text \<open>
  Claim C3 as stated fails: the supply of period 1 is 3016, which is less
  than \<open>userCount(1) * 10 - userCount(1) * 2\<close> for the real-valued count
  \<open>userCount(1) > 377\<close>.
\<close>

theorem scenario_A_supply_counterexample:
  "(case fst (simulate_single_run scenario_A test_gauss (Some 0) idle_rng) of
      Inl e \<Rightarrow> False
    | Inr tr \<Rightarrow>
        supply_arr tr ! 1 = 3016
        \<and> supply_arr tr ! 1
            \<noteq> logistic_growth 1 1000 (1 / 10) 6 * 10 - logistic_growth 1 1000 (1 / 10) 6 * 2)"
proof -
  have s0: "valid_seed (Some 0)" by (simp add: valid_seed_def)
  from scenario_A_run [OF s0, of test_gauss idle_rng] obtain tr g' where
    run: "simulate_single_run scenario_A test_gauss (Some 0) idle_rng = (Inr tr, g')"
    and res: "run_result scenario_A (nat (T_STEPS scenario_A)) tr" by blast
  note p1 = scenario_A_period_1 [OF res]
  have "3016 < logistic_growth 1 1000 (1 / 10) 6 * 10 - logistic_growth 1 1000 (1 / 10) 6 * 2"
    using scenario_A_users_1_bounds(1) by simp
  with run p1(4) show ?thesis by simp
qed

section \<open>The statistics under a reordering of the runs\<close>

lemma round_double_binade:
  assumes "2 powr of_int k \<le> \<bar>x\<bar>" and "\<bar>x\<bar> < 2 powr of_int (k + 1)" and "- 1022 \<le> k"
  shows "round_double x
           = of_int (round_half_even (x / 2 powr of_int (k - 52))) * 2 powr of_int (k - 52)"
proof -
  have "0 < (2::real) powr of_int k" by simp
  with assms(1) have pos: "0 < \<bar>x\<bar>" by linarith
  then have nz: "x \<noteq> 0" by simp
  from assms(1,2) have "\<lfloor>log 2 \<bar>x\<bar>\<rfloor> = k"
    using floor_log_eq_powr_iff [OF pos, of 2 k] by simp
  with assms(3) nz show ?thesis
    by (simp add: round_double_def Let_def max_def)
qed

lemma round_double_tie_to_even: "round_double 10000000000000001 = 10000000000000000"
  using round_double_binade [of 53 10000000000000001]
  by (simp add: round_half_even_def Let_def)

lemma round_double_third_up: "round_double (10000000000000000 / 3) = 6666666666666667 / 2"
  using round_double_binade [of 51 "10000000000000000 / 3"]
  by (simp add: round_half_even_def Let_def)

lemma round_double_two: "round_double 2 = 2"
  using round_double_binade [of 1 2]
  by (simp add: round_half_even_def Let_def powr_neg_numeral)

lemma round_double_even_sum: "round_double 10000000000000002 = 10000000000000002"
  using round_double_binade [of 53 10000000000000002]
  by (simp add: round_half_even_def Let_def)

lemma round_double_third_exact: "round_double 3333333333333334 = 3333333333333334"
  using round_double_binade [of 51 3333333333333334]
  by (simp add: round_half_even_def Let_def)

text \<open>Exact arithmetic: the rounding is the identity.\<close>

lemma foldl_add_sum_list: "foldl (\<lambda>s y. s + y) (x::real) ys = x + sum_list ys"
  by (induction ys arbitrary: x) (simp_all add: add.assoc)

lemma np_add_reduce_exact: "np_add_reduce (\<lambda>x. x) xs = sum_list xs"
  by (cases xs) (simp_all add: np_add_reduce_def foldl_add_sum_list)

lemma np_mean_rnd_exact: "np_mean_rnd (\<lambda>x. x) xs = np_mean xs"
  by (simp add: np_mean_rnd_def np_mean_def np_add_reduce_exact)

lemma np_std_rnd_exact: "np_std_rnd (\<lambda>x. x) xs = np_std xs"
  by (simp add: np_std_rnd_def np_std_def np_mean_rnd_exact power2_eq_square
      split: option.splits)

lemma numpy_lerp_exact: "numpy_lerp (\<lambda>x. x) a b t = a + t * (b - a)"
  by (simp add: numpy_lerp_def Let_def algebra_simps)

lemma np_percentile_rnd_exact:
  assumes "0 \<le> q" and "q \<le> 100"
  shows "np_percentile_rnd (\<lambda>x. x) xs q = np_percentile xs q"
proof (cases "xs = []")
  case True
  then show ?thesis by (simp add: np_percentile_rnd_def np_percentile_def)
next
  case False
  define h where "h = real (length xs - 1) * (q / 100)"
  note pos = percentile_position [OF False assms, folded h_def]
  show ?thesis
  proof (cases "real (length xs - 1) \<le> h")
    case True
    with pos(2) have hh: "h = real (length xs - 1)" by simp
    then have "nat \<lfloor>h\<rfloor> = length xs - 1" by simp
    with False True show ?thesis
      unfolding np_percentile_rnd_def percentile_of_sorted_def np_percentile_def Let_def
        length_sort h_def [symmetric]
      by (simp add: numpy_lerp_exact)
  next
    case no: False
    from pos(1) have r: "real (nat \<lfloor>h\<rfloor>) = real_of_int \<lfloor>h\<rfloor>" by simp
    from no have "\<lfloor>h\<rfloor> < int (length xs - 1)" by (simp add: floor_less_iff)
    moreover from pos(1) have "0 \<le> \<lfloor>h\<rfloor>" by simp
    ultimately have le: "nat \<lfloor>h\<rfloor> + 1 \<le> length xs - 1" by linarith
    from False no pos(1) le show ?thesis
      unfolding np_percentile_rnd_def percentile_of_sorted_def np_percentile_def Let_def
        length_sort h_def [symmetric]
      by (simp add: numpy_lerp_exact r min_def algebra_simps)
  qed
qed

lemma axis0_rnd_exact:
  "np_mean_axis0_rnd (\<lambda>x. x) n rows = np_mean_axis0 n rows"
  "np_std_axis0_rnd (\<lambda>x. x) n rows = np_std_axis0 n rows"
  "np_percentile_axis0_rnd (\<lambda>x. x) n rows 5 = np_percentile_axis0 n rows 5"
  "np_percentile_axis0_rnd (\<lambda>x. x) n rows 95 = np_percentile_axis0 n rows 95"
  by (simp_all add: np_mean_axis0_rnd_def np_mean_axis0_def np_std_axis0_rnd_def
      np_std_axis0_def np_percentile_axis0_rnd_def np_percentile_axis0_def
      np_mean_rnd_exact np_std_rnd_exact np_percentile_rnd_exact)

lemma compute_statistics_rnd_exact:
  "compute_statistics_rnd (\<lambda>x. x) n rows rows' = compute_statistics n rows rows'"
  by (simp only: compute_statistics_rnd_def compute_statistics_def axis0_rnd_exact)

text \<open>Percentiles with any rounding depend on the sorted column only.\<close>

lemma np_percentile_rnd_mset_cong:
  assumes "mset xs = mset ys"
  shows "np_percentile_rnd rnd xs q = np_percentile_rnd rnd ys q"
proof -
  from assms have "length xs = length ys" by (rule mset_eq_length)
  then have "xs = [] \<longleftrightarrow> ys = []" by auto
  moreover from assms have "sort xs = sort ys" by (rule sort_mset_cong)
  ultimately show ?thesis by (simp add: np_percentile_rnd_def)
qed

lemma np_percentile_axis0_rnd_rows:
  assumes "rows \<noteq> []"
  shows "np_percentile_axis0_rnd rnd n rows q
           = Inr (map (\<lambda>t. percentile_of_sorted rnd (sort (column rows t)) q) [0..<n])"
proof -
  have "column rows t \<noteq> []" for t using assms by (simp add: column_def)
  then have "np_percentile_rnd rnd (column rows t) q
               = Inr (percentile_of_sorted rnd (sort (column rows t)) q)" for t
    by (simp add: np_percentile_rnd_def)
  then show ?thesis
    by (simp add: np_percentile_axis0_rnd_def collect_all_Inr)
qed

lemma compute_statistics_rnd_rows:
  assumes "rows \<noteq> []"
  shows "compute_statistics_rnd rnd n rows rows' =
           Inr \<lparr>mean_supply = np_mean_axis0_rnd rnd n rows,
                std_supply = np_std_axis0_rnd rnd n rows,
                percentile_5 = map (\<lambda>t. percentile_of_sorted rnd (sort (column rows t)) 5) [0..<n],
                percentile_95 = map (\<lambda>t. percentile_of_sorted rnd (sort (column rows t)) 95) [0..<n],
                mean_reward = np_mean_axis0_rnd rnd n rows'\<rparr>"
  by (simp add: compute_statistics_rnd_def Let_def np_percentile_axis0_rnd_rows [OF assms])

lemma sort_column_cong:
  assumes "mset runs' = mset runs"
  shows "sort (column (map f runs') t) = sort (column (map f runs) t)"
  by (rule sort_mset_cong) (rule mset_column [OF assms])

lemma np_percentile_interpolates:
  assumes ne: "xs \<noteq> []" and q0: "0 \<le> q" and q1: "q \<le> 100"
  shows "let a = sort xs;
             h = real (length xs - 1) * (q / 100);
             lo = nat \<lfloor>h\<rfloor>;
             hi = min (lo + 1) (length xs - 1);
             gam = h - real lo
         in lo \<le> hi \<and> hi < length xs \<and> 0 \<le> gam \<and> gam < 1
            \<and> np_percentile xs q = Inr ((1 - gam) * a ! lo + gam * a ! hi)"
proof -
  from ne have len: "0 < length xs" by simp
  define h where "h = real (length xs - 1) * (q / 100)"
  define lo where "lo = nat \<lfloor>h\<rfloor>"
  define hi where "hi = min (lo + 1) (length xs - 1)"
  define gam where "gam = h - real lo"
  note pos = percentile_position [OF ne q0 q1, folded h_def lo_def]
  from pos(3) have 1: "lo \<le> hi" by (simp add: hi_def)
  have "hi \<le> length xs - 1" by (simp add: hi_def)
  with len have 2: "hi < length xs" by arith
  from pos(4,5) have 3: "0 \<le> gam" "gam < 1" by (simp_all add: gam_def)
  have "np_percentile xs q = Inr (sort xs ! lo + gam * (sort xs ! hi - sort xs ! lo))"
    using ne by (simp add: np_percentile_def Let_def h_def lo_def hi_def gam_def)
  then have 4: "np_percentile xs q = Inr ((1 - gam) * sort xs ! lo + gam * sort xs ! hi)"
    by (simp add: algebra_simps)
  show ?thesis
    unfolding Let_def h_def [symmetric] lo_def [symmetric] hi_def [symmetric]
      gam_def [symmetric]
    using 1 2 3 4 by simp
qed

lemma np_std_nonempty:
  assumes "xs \<noteq> []"
  shows "np_std xs =
           Some (sqrt (sum_list (map (\<lambda>x. (x - sum_list xs / real (length xs))\<^sup>2) xs)
                        / real (length xs)))"
  using assms by (simp add: np_std_def np_mean_def)

lemma percentiles_of_statistics:
  assumes "rows \<noteq> []"
  shows "map_sum id percentile_5 (compute_statistics_rnd rnd n rows rows')
           = Inr (map (\<lambda>t. percentile_of_sorted rnd (sort (column rows t)) 5) [0..<n])"
    and "map_sum id percentile_95 (compute_statistics_rnd rnd n rows rows')
           = Inr (map (\<lambda>t. percentile_of_sorted rnd (sort (column rows t)) 95) [0..<n])"
  by (simp_all add: compute_statistics_rnd_rows [OF assms])

lemma percentiles_mset_cong:
  assumes m: "mset runs' = mset runs"
  shows "map_sum id percentile_5
           (compute_statistics_rnd rnd n (map supply_arr runs') (map rewards runs'))
         = map_sum id percentile_5
             (compute_statistics_rnd rnd n (map supply_arr runs) (map rewards runs))"
    and "map_sum id percentile_95
           (compute_statistics_rnd rnd n (map supply_arr runs') (map rewards runs'))
         = map_sum id percentile_95
             (compute_statistics_rnd rnd n (map supply_arr runs) (map rewards runs))"
proof -
  from m have len: "length runs' = length runs" by (rule mset_eq_length)
  show "map_sum id percentile_5
           (compute_statistics_rnd rnd n (map supply_arr runs') (map rewards runs'))
         = map_sum id percentile_5
             (compute_statistics_rnd rnd n (map supply_arr runs) (map rewards runs))"
  proof (cases "runs = []")
    case True
    with len show ?thesis by simp
  next
    case False
    with len have "map supply_arr runs \<noteq> []" "map supply_arr runs' \<noteq> []" by auto
    then show ?thesis
      by (simp add: percentiles_of_statistics sort_column_cong [OF m])
  qed
  show "map_sum id percentile_95
           (compute_statistics_rnd rnd n (map supply_arr runs') (map rewards runs'))
         = map_sum id percentile_95
             (compute_statistics_rnd rnd n (map supply_arr runs) (map rewards runs))"
  proof (cases "runs = []")
    case True
    with len show ?thesis by simp
  next
    case False
    with len have "map supply_arr runs \<noteq> []" "map supply_arr runs' \<noteq> []" by auto
    then show ?thesis
      by (simp add: percentiles_of_statistics sort_column_cong [OF m])
  qed
qed

text \<open>
  Claim C6, as the code has it. For every rounding of the arithmetic, so
  also in double precision, the 5th and the 95th percentile of the supply
  computed from a reordered list of runs are those computed from the
  original list; in exact arithmetic all five statistics are. For a
  non-empty list of runs the call returns statistics with one entry per
  period, each the mean, standard deviation or percentile of the column of
  that period. In exact arithmetic the mean is the sum divided by the
  number of runs, the standard deviation the root of the mean squared
  difference from it, and a percentile \<open>(1 - gam) * a ! lo + gam * a ! hi\<close>,
  the linear interpolation between two neighbouring order statistics of
  the sorted column \<open>a\<close>, with a weight \<open>gam\<close> in \<open>[0, 1)\<close>. Nothing is said
  of the mean, the standard deviation and the mean reward in double
  precision, where they depend on the order of the runs.
\<close>

theorem statistics_under_reordering:
  "(mset runs' = mset runs \<longrightarrow>
      map_sum id percentile_5
          (compute_statistics_rnd rnd n (map supply_arr runs') (map rewards runs'))
        = map_sum id percentile_5
            (compute_statistics_rnd rnd n (map supply_arr runs) (map rewards runs))
      \<and> map_sum id percentile_95
            (compute_statistics_rnd rnd n (map supply_arr runs') (map rewards runs'))
          = map_sum id percentile_95
              (compute_statistics_rnd rnd n (map supply_arr runs) (map rewards runs))
      \<and> compute_statistics_rnd (\<lambda>x. x) n (map supply_arr runs') (map rewards runs')
          = compute_statistics_rnd (\<lambda>x. x) n (map supply_arr runs) (map rewards runs))
   \<and> (runs \<noteq> [] \<longrightarrow>
        (\<exists>st.
           compute_statistics_rnd rnd n (map supply_arr runs) (map rewards runs) = Inr st
           \<and> length (percentile_5 st) = n \<and> length (percentile_95 st) = n
           \<and> length (mean_supply st) = n \<and> length (std_supply st) = n
           \<and> length (mean_reward st) = n
           \<and> (\<forall>t<n.
                 percentile_5 st ! t
                   = percentile_of_sorted rnd (sort (column (map supply_arr runs) t)) 5
                 \<and> percentile_95 st ! t
                     = percentile_of_sorted rnd (sort (column (map supply_arr runs) t)) 95
                 \<and> mean_supply st ! t = np_mean_rnd rnd (column (map supply_arr runs) t)
                 \<and> std_supply st ! t = np_std_rnd rnd (column (map supply_arr runs) t)
                 \<and> mean_reward st ! t = np_mean_rnd rnd (column (map rewards runs) t))))
   \<and> (xs \<noteq> [] \<longrightarrow>
        np_mean_rnd (\<lambda>x. x) xs = Some (sum_list xs / real (length xs))
        \<and> np_std_rnd (\<lambda>x. x) xs =
            Some (sqrt (sum_list (map (\<lambda>x. (x - sum_list xs / real (length xs))\<^sup>2) xs)
                         / real (length xs))))
   \<and> (xs \<noteq> [] \<and> 0 \<le> q \<and> q \<le> 100 \<longrightarrow>
        (let a = sort xs;
             h = real (length xs - 1) * (q / 100);
             lo = nat \<lfloor>h\<rfloor>;
             hi = min (lo + 1) (length xs - 1);
             gam = h - real lo
         in lo \<le> hi \<and> hi < length xs \<and> 0 \<le> gam \<and> gam < 1
            \<and> percentile_of_sorted (\<lambda>x. x) a q = (1 - gam) * a ! lo + gam * a ! hi))"
proof (intro conjI impI)
  assume m: "mset runs' = mset runs"
  show "map_sum id percentile_5
          (compute_statistics_rnd rnd n (map supply_arr runs') (map rewards runs'))
        = map_sum id percentile_5
            (compute_statistics_rnd rnd n (map supply_arr runs) (map rewards runs))"
    by (rule percentiles_mset_cong(1) [OF m])
  show "map_sum id percentile_95
            (compute_statistics_rnd rnd n (map supply_arr runs') (map rewards runs'))
          = map_sum id percentile_95
              (compute_statistics_rnd rnd n (map supply_arr runs) (map rewards runs))"
    by (rule percentiles_mset_cong(2) [OF m])
  show "compute_statistics_rnd (\<lambda>x. x) n (map supply_arr runs') (map rewards runs')
          = compute_statistics_rnd (\<lambda>x. x) n (map supply_arr runs) (map rewards runs)"
    unfolding compute_statistics_rnd_exact using m by (rule statistics_mset_cong)
next
  assume "runs \<noteq> []"
  then have ne: "map supply_arr runs \<noteq> []" by simp
  note st = compute_statistics_rnd_rows [OF ne, of rnd n "map rewards runs"]
  show "\<exists>st.
           compute_statistics_rnd rnd n (map supply_arr runs) (map rewards runs) = Inr st
           \<and> length (percentile_5 st) = n \<and> length (percentile_95 st) = n
           \<and> length (mean_supply st) = n \<and> length (std_supply st) = n
           \<and> length (mean_reward st) = n
           \<and> (\<forall>t<n.
                 percentile_5 st ! t
                   = percentile_of_sorted rnd (sort (column (map supply_arr runs) t)) 5
                 \<and> percentile_95 st ! t
                     = percentile_of_sorted rnd (sort (column (map supply_arr runs) t)) 95
                 \<and> mean_supply st ! t = np_mean_rnd rnd (column (map supply_arr runs) t)
                 \<and> std_supply st ! t = np_std_rnd rnd (column (map supply_arr runs) t)
                 \<and> mean_reward st ! t = np_mean_rnd rnd (column (map rewards runs) t))"
    by (rule exI [of _ "\<lparr>mean_supply = np_mean_axis0_rnd rnd n (map supply_arr runs),
        std_supply = np_std_axis0_rnd rnd n (map supply_arr runs),
        percentile_5 = map (\<lambda>t. percentile_of_sorted rnd
                                 (sort (column (map supply_arr runs) t)) 5) [0..<n],
        percentile_95 = map (\<lambda>t. percentile_of_sorted rnd
                                  (sort (column (map supply_arr runs) t)) 95) [0..<n],
        mean_reward = np_mean_axis0_rnd rnd n (map rewards runs)\<rparr>"])
      (simp add: st np_mean_axis0_rnd_def np_std_axis0_rnd_def)
next
  assume "xs \<noteq> []"
  then show "np_mean_rnd (\<lambda>x. x) xs = Some (sum_list xs / real (length xs))"
    by (simp add: np_mean_rnd_exact np_mean_def)
next
  assume "xs \<noteq> []"
  then show "np_std_rnd (\<lambda>x. x) xs =
            Some (sqrt (sum_list (map (\<lambda>x. (x - sum_list xs / real (length xs))\<^sup>2) xs)
                         / real (length xs)))"
    unfolding np_std_rnd_exact by (rule np_std_nonempty)
next
  assume h: "xs \<noteq> [] \<and> 0 \<le> q \<and> q \<le> 100"
  then have ne: "xs \<noteq> []" and q0: "0 \<le> q" and q1: "q \<le> 100" by simp_all
  have eq: "np_percentile xs q = Inr (percentile_of_sorted (\<lambda>x. x) (sort xs) q)"
    using np_percentile_rnd_exact [OF q0 q1, of xs] ne by (simp add: np_percentile_rnd_def)
  show "let a = sort xs;
             h = real (length xs - 1) * (q / 100);
             lo = nat \<lfloor>h\<rfloor>;
             hi = min (lo + 1) (length xs - 1);
             gam = h - real lo
         in lo \<le> hi \<and> hi < length xs \<and> 0 \<le> gam \<and> gam < 1
            \<and> percentile_of_sorted (\<lambda>x. x) a q = (1 - gam) * a ! lo + gam * a ! hi"
    unfolding Let_def
    using np_percentile_interpolates [OF ne q0 q1, unfolded Let_def eq sum.inject] .
qed

theorem statistics_under_reordering_witness:
  "mset [one_period_run 30 1, one_period_run 10 2, one_period_run 20 3]
     = mset [one_period_run 10 2, one_period_run 20 3, one_period_run 30 1]
   \<and> [one_period_run 10 2, one_period_run 20 3, one_period_run 30 1] \<noteq> []
   \<and> map_sum id percentile_5
         (compute_statistics_rnd round_double 1
            (map supply_arr [one_period_run 30 1, one_period_run 10 2, one_period_run 20 3])
            (map rewards [one_period_run 30 1, one_period_run 10 2, one_period_run 20 3]))
       = map_sum id percentile_5
           (compute_statistics_rnd round_double 1
              (map supply_arr [one_period_run 10 2, one_period_run 20 3, one_period_run 30 1])
              (map rewards [one_period_run 10 2, one_period_run 20 3, one_period_run 30 1]))
   \<and> compute_statistics_rnd (\<lambda>x. x) 1
         (map supply_arr [one_period_run 30 1, one_period_run 10 2, one_period_run 20 3])
         (map rewards [one_period_run 30 1, one_period_run 10 2, one_period_run 20 3])
       = compute_statistics_rnd (\<lambda>x. x) 1
           (map supply_arr [one_period_run 10 2, one_period_run 20 3, one_period_run 30 1])
           (map rewards [one_period_run 10 2, one_period_run 20 3, one_period_run 30 1])
   \<and> [10, 30, 20 :: real] \<noteq> [] \<and> (0 :: real) \<le> 5 \<and> (5 :: real) \<le> 100
   \<and> np_mean_rnd (\<lambda>x. x) [10, 30, 20] = Some 20
   \<and> percentile_of_sorted (\<lambda>x. x) (sort [10, 30, 20]) 5 = 11"
proof -
  have m: "mset [one_period_run 30 1, one_period_run 10 2, one_period_run 20 3]
     = mset [one_period_run 10 2, one_period_run 20 3, one_period_run 30 1]"
    by (simp add: add_mset_commute)
  note inst = statistics_under_reordering
    [of "[one_period_run 30 1, one_period_run 10 2, one_period_run 20 3]"
        "[one_period_run 10 2, one_period_run 20 3, one_period_run 30 1]"
        round_double 1 "[10, 30, 20]" 5]
  from inst m have p: "map_sum id percentile_5
         (compute_statistics_rnd round_double 1
            (map supply_arr [one_period_run 30 1, one_period_run 10 2, one_period_run 20 3])
            (map rewards [one_period_run 30 1, one_period_run 10 2, one_period_run 20 3]))
       = map_sum id percentile_5
           (compute_statistics_rnd round_double 1
              (map supply_arr [one_period_run 10 2, one_period_run 20 3, one_period_run 30 1])
              (map rewards [one_period_run 10 2, one_period_run 20 3, one_period_run 30 1]))"
    by blast
  from inst m have e: "compute_statistics_rnd (\<lambda>x. x) 1
         (map supply_arr [one_period_run 30 1, one_period_run 10 2, one_period_run 20 3])
         (map rewards [one_period_run 30 1, one_period_run 10 2, one_period_run 20 3])
       = compute_statistics_rnd (\<lambda>x. x) 1
           (map supply_arr [one_period_run 10 2, one_period_run 20 3, one_period_run 30 1])
           (map rewards [one_period_run 10 2, one_period_run 20 3, one_period_run 30 1])"
    by blast
  from inst have mean: "np_mean_rnd (\<lambda>x. x) [10, 30, 20] = Some 20"
    by simp
  from inst have "let a = sort [10, 30, 20 :: real];
             h = real (length [10, 30, 20 :: real] - 1) * (5 / 100);
             lo = nat \<lfloor>h\<rfloor>;
             hi = min (lo + 1) (length [10, 30, 20 :: real] - 1);
             gam = h - real lo
         in lo \<le> hi \<and> hi < length [10, 30, 20 :: real] \<and> 0 \<le> gam \<and> gam < 1
            \<and> percentile_of_sorted (\<lambda>x. x) a 5 = (1 - gam) * a ! lo + gam * a ! hi"
    by simp
  then have pc: "percentile_of_sorted (\<lambda>x. x) (sort [10, 30, 20]) 5 = 11"
    by (simp add: Let_def)
  from m p e mean pc show ?thesis by simp
qed

lemma np_mean_rnd_large_first:
  "np_mean_rnd round_double [10000000000000000, 1, 1] = Some (6666666666666667 / 2)"
  by (simp add: np_mean_rnd_def np_add_reduce_def round_double_tie_to_even round_double_third_up)

lemma np_mean_rnd_large_last:
  "np_mean_rnd round_double [1, 1, 10000000000000000] = Some 3333333333333334"
  by (simp add: np_mean_rnd_def np_add_reduce_def round_double_two round_double_even_sum round_double_third_exact)

lemma mean_supply_of_statistics:
  assumes "rows \<noteq> []"
  shows "map_sum id mean_supply (compute_statistics_rnd rnd n rows rows')
           = Inr (np_mean_axis0_rnd rnd n rows)"
  by (simp add: compute_statistics_rnd_rows [OF assms])

text \<open>
  Claim C6 as stated fails in double precision. Three runs with supplies
  \<open>10^16, 1, 1\<close> in period 0 have the mean \<open>3333333333333333.5\<close> in this
  order, as \<open>10^16 + 1\<close> rounds back to \<open>10^16\<close> twice, and the mean
  \<open>3333333333333334\<close> in the order \<open>1, 1, 10^16\<close>, where the sum
  \<open>10^16 + 2\<close> is exact. So the statistics of the two orders differ.
\<close>

theorem float_mean_order_counterexample:
  "mset [one_period_run 1 1, one_period_run 1 1, one_period_run 10000000000000000 1]
     = mset [one_period_run 10000000000000000 1, one_period_run 1 1, one_period_run 1 1]
   \<and> map_sum id mean_supply
         (compute_statistics_rnd round_double 1
            (map supply_arr
               [one_period_run 10000000000000000 1, one_period_run 1 1, one_period_run 1 1])
            (map rewards
               [one_period_run 10000000000000000 1, one_period_run 1 1, one_period_run 1 1]))
       = Inr [Some (6666666666666667 / 2)]
   \<and> map_sum id mean_supply
         (compute_statistics_rnd round_double 1
            (map supply_arr
               [one_period_run 1 1, one_period_run 1 1, one_period_run 10000000000000000 1])
            (map rewards
               [one_period_run 1 1, one_period_run 1 1, one_period_run 10000000000000000 1]))
       = Inr [Some 3333333333333334]
   \<and> compute_statistics_rnd round_double 1
         (map supply_arr
            [one_period_run 10000000000000000 1, one_period_run 1 1, one_period_run 1 1])
         (map rewards
            [one_period_run 10000000000000000 1, one_period_run 1 1, one_period_run 1 1])
       \<noteq> compute_statistics_rnd round_double 1
           (map supply_arr
              [one_period_run 1 1, one_period_run 1 1, one_period_run 10000000000000000 1])
           (map rewards
              [one_period_run 1 1, one_period_run 1 1, one_period_run 10000000000000000 1])"
proof -
  have m: "mset [one_period_run 1 1, one_period_run 1 1, one_period_run 10000000000000000 1]
     = mset [one_period_run 10000000000000000 1, one_period_run 1 1, one_period_run 1 1]"
    by (simp add: add_mset_commute)
  have a: "map_sum id mean_supply
         (compute_statistics_rnd round_double 1
            (map supply_arr
               [one_period_run 10000000000000000 1, one_period_run 1 1, one_period_run 1 1])
            (map rewards
               [one_period_run 10000000000000000 1, one_period_run 1 1, one_period_run 1 1]))
       = Inr [Some (6666666666666667 / 2)]"
    by (simp add: mean_supply_of_statistics np_mean_axis0_rnd_def column_def one_period_run_def
        np_mean_rnd_large_first)
  have b: "map_sum id mean_supply
         (compute_statistics_rnd round_double 1
            (map supply_arr
               [one_period_run 1 1, one_period_run 1 1, one_period_run 10000000000000000 1])
            (map rewards
               [one_period_run 1 1, one_period_run 1 1, one_period_run 10000000000000000 1]))
       = Inr [Some 3333333333333334]"
    by (simp add: mean_supply_of_statistics np_mean_axis0_rnd_def column_def one_period_run_def
        np_mean_rnd_large_last)
  from a b have "map_sum id mean_supply
         (compute_statistics_rnd round_double 1
            (map supply_arr
               [one_period_run 10000000000000000 1, one_period_run 1 1, one_period_run 1 1])
            (map rewards
               [one_period_run 10000000000000000 1, one_period_run 1 1, one_period_run 1 1]))
       \<noteq> map_sum id mean_supply
         (compute_statistics_rnd round_double 1
            (map supply_arr
               [one_period_run 1 1, one_period_run 1 1, one_period_run 10000000000000000 1])
            (map rewards
               [one_period_run 1 1, one_period_run 1 1, one_period_run 10000000000000000 1]))"
    by simp
  then have c: "compute_statistics_rnd round_double 1
         (map supply_arr
            [one_period_run 10000000000000000 1, one_period_run 1 1, one_period_run 1 1])
         (map rewards
            [one_period_run 10000000000000000 1, one_period_run 1 1, one_period_run 1 1])
       \<noteq> compute_statistics_rnd round_double 1
           (map supply_arr
              [one_period_run 1 1, one_period_run 1 1, one_period_run 10000000000000000 1])
           (map rewards
              [one_period_run 1 1, one_period_run 1 1, one_period_run 10000000000000000 1])"
    by metis
  from m a b c show ?thesis by simp
qed

end
